theory Spec2Isabelle
  imports Complex_Main
begin

section \<open>Paper-trading ledger: data model\<close>

text \<open>
  The engine of the paper-trading agent (\<^verbatim>\<open>engine/types.ts\<close>, \<^verbatim>\<open>engine/balance.ts\<close>,
  \<^verbatim>\<open>engine/positions.ts\<close>, \<^verbatim>\<open>engine/trades.ts\<close>) is embedded with explicit state passing.
  A JavaScript \<^verbatim>\<open>number\<close> is modelled as a \<^typ>\<open>real\<close>. The operations of the
  engine are given twice: with exact arithmetic in the sections on the BalanceManager,
  the PositionTracker and the TradeExecutor, and, in the section on double arithmetic,
  with the rounding of IEEE doubles after every operation, as the code computes.
  The special values \<^verbatim>\<open>NaN\<close> and \<^verbatim>\<open>Infinity\<close> are outside both models; the code
  produces them when a result is too large for a double and when \<open>addPosition\<close>
  divides by a share total of zero.
  A \<^verbatim>\<open>Date\<close> is the number of milliseconds since the epoch.
  The two ambient sources of the code, \<^verbatim>\<open>uuidv4()\<close> and \<^verbatim>\<open>new Date()\<close>, are passed
  to each operation as arguments, one value per call site.
\<close>

datatype side = BUY | SELL

record VirtualBalance =
  cash :: real
  totalValue :: real
  initialBalance :: real
  lastUpdated :: int

record Position =
  p_id :: string
  p_marketId :: string
  p_marketQuestion :: string
  p_tokenId :: string
  p_outcome :: string
  p_shares :: real
  p_avgPrice :: real
  p_currentPrice :: real
  p_unrealizedPnL :: real
  p_openedAt :: int

record Trade =
  t_id :: string
  t_timestamp :: int
  t_marketId :: string
  t_marketQuestion :: string
  t_tokenId :: string
  t_outcome :: string
  t_side :: side
  t_shares :: real
  t_price :: real
  t_totalCost :: real
  t_fees :: real
  t_realizedPnL :: "real option"

record OrderRequest =
  o_marketId :: string
  o_marketQuestion :: string
  o_tokenId :: string
  o_outcome :: string
  o_side :: side
  o_shares :: real
  o_price :: real

text \<open>
  A template literal is kept as the list of its pieces: literal text, an interpolated
  number (\<^verbatim>\<open>${x}\<close>) and a number printed with \<^verbatim>\<open>toFixed(d)\<close>. The conversion of a
  number to its decimal text is not modelled.
\<close>

datatype piece = Lit string | Num real | Fixed real nat

type_synonym message = "piece list"

record OrderResult =
  success :: bool
  trade :: "Trade option"
  error :: "message option"
  newBalance :: "real option"

subsection \<open>The position map\<close>

text \<open>
  \<^verbatim>\<open>Map<string, Position>\<close> keeps its entries in insertion order; it is an association
  list with at most one entry per key. \<^verbatim>\<open>set\<close> on a key already present keeps the
  entry's place and appends a new key at the end; \<^verbatim>\<open>delete\<close> removes the key.
\<close>

type_synonym 'v js_map = "(string \<times> 'v) list"

definition Map_get :: "'v js_map \<Rightarrow> string \<Rightarrow> 'v option" where
  "Map_get m k = map_of m k"

fun Map_set :: "'v js_map \<Rightarrow> string \<Rightarrow> 'v \<Rightarrow> 'v js_map" where
  "Map_set [] k v = [(k, v)]"
| "Map_set ((k', v') # m) k v =
     (if k' = k then (k, v) # m else (k', v') # Map_set m k v)"

definition Map_delete :: "'v js_map \<Rightarrow> string \<Rightarrow> 'v js_map" where
  "Map_delete m k = filter (\<lambda>(k', v'). k' \<noteq> k) m"

text \<open>The key of a position: the template literal \<^verbatim>\<open>`${marketId}-${outcome}`\<close>.\<close>

definition position_key :: "string \<Rightarrow> string \<Rightarrow> string" where
  "position_key marketId outcome = marketId @ ''-'' @ outcome"

section \<open>BalanceManager\<close>

definition FEE_RATE :: real where
  "FEE_RATE = 0.001"

definition getCash :: "VirtualBalance \<Rightarrow> real" where
  "getCash b = cash b"

definition canAfford :: "VirtualBalance \<Rightarrow> real \<Rightarrow> bool" where
  "canAfford b amount = (cash b \<ge> amount)"

text \<open>\<^verbatim>\<open>deductCash\<close> returns its boolean together with the balance it leaves.\<close>

definition deductCash :: "int \<Rightarrow> real \<Rightarrow> VirtualBalance \<Rightarrow> bool \<times> VirtualBalance" where
  "deductCash now amount b =
     (if \<not> canAfford b amount then (False, b)
      else (True, b\<lparr>cash := cash b - amount, lastUpdated := now\<rparr>))"

definition addCash :: "int \<Rightarrow> real \<Rightarrow> VirtualBalance \<Rightarrow> VirtualBalance" where
  "addCash now amount b = b\<lparr>cash := cash b + amount, lastUpdated := now\<rparr>"

section \<open>PositionTracker\<close>


text \<open>
  \<^verbatim>\<open>position?.shares || 0\<close>: the held shares, and 0 when there is no position or its
  share count is falsy (zero).
\<close>

definition getPositionSize :: "Position js_map \<Rightarrow> string \<Rightarrow> string \<Rightarrow> real" where
  "getPositionSize ps marketId outcome =
     (case Map_get ps (position_key marketId outcome) of
        None \<Rightarrow> 0
      | Some position \<Rightarrow> (if p_shares position = 0 then 0 else p_shares position))"

text \<open>
  \<^verbatim>\<open>addPosition(order, shares, price)\<close>. The existing position object is mutated in
  place, so its entry keeps its place in the map; a new position is appended.
  The arguments \<open>uuid\<close> and \<open>now\<close> stand for \<^verbatim>\<open>uuidv4()\<close> and \<^verbatim>\<open>new Date()\<close>, which
  only the second branch reads.
\<close>

definition addPosition ::
  "string \<Rightarrow> int \<Rightarrow> OrderRequest \<Rightarrow> real \<Rightarrow> real \<Rightarrow> Position js_map \<Rightarrow> Position \<times> Position js_map"
where
  "addPosition uuid now order shares price ps =
     (let key = position_key (o_marketId order) (o_outcome order) in
      case Map_get ps key of
        Some existing \<Rightarrow>
          (let totalShares = p_shares existing + shares;
               totalCost = (p_shares existing * p_avgPrice existing) + (shares * price);
               newAvgPrice = totalCost / totalShares;
               existing' = existing\<lparr>p_shares := totalShares,
                                     p_avgPrice := newAvgPrice,
                                     p_currentPrice := price,
                                     p_unrealizedPnL := (price - newAvgPrice) * totalShares\<rparr>
           in (existing', Map_set ps key existing'))
      | None \<Rightarrow>
          (let position = \<lparr>p_id = uuid,
                           p_marketId = o_marketId order,
                           p_marketQuestion = o_marketQuestion order,
                           p_tokenId = o_tokenId order,
                           p_outcome = o_outcome order,
                           p_shares = shares,
                           p_avgPrice = price,
                           p_currentPrice = price,
                           p_unrealizedPnL = 0,
                           p_openedAt = now\<rparr>
           in (position, Map_set ps key position)))"

record ReduceResult =
  r_success :: bool
  r_realizedPnL :: real
  r_remainingShares :: real

definition reducePosition ::
  "string \<Rightarrow> string \<Rightarrow> real \<Rightarrow> real \<Rightarrow> Position js_map \<Rightarrow> ReduceResult \<times> Position js_map"
where
  "reducePosition marketId outcome shares sellPrice ps =
     (let key = position_key marketId outcome in
      case Map_get ps key of
        None \<Rightarrow> (\<lparr>r_success = False, r_realizedPnL = 0, r_remainingShares = 0\<rparr>, ps)
      | Some position \<Rightarrow>
          if p_shares position < shares
          then (\<lparr>r_success = False, r_realizedPnL = 0,
                 r_remainingShares = (if p_shares position = 0 then 0 else p_shares position)\<rparr>, ps)
          else
            (let realizedPnL = (sellPrice - p_avgPrice position) * shares;
                 remaining = p_shares position - shares
             in if remaining \<le> 0
                then (\<lparr>r_success = True, r_realizedPnL = realizedPnL, r_remainingShares = 0\<rparr>,
                      Map_delete ps key)
                else
                  (let position' = position\<lparr>p_shares := remaining,
                                             p_currentPrice := sellPrice,
                                             p_unrealizedPnL := (sellPrice - p_avgPrice position) * remaining\<rparr>
                   in (\<lparr>r_success = True, r_realizedPnL = realizedPnL,
                         r_remainingShares = remaining\<rparr>,
                       Map_set ps key position'))))"

section \<open>TradeExecutor\<close>

text \<open>
  The ledger is the state the executor works on: the balance of its BalanceManager,
  the map of its PositionTracker and its own append-only history.
\<close>

record ledger =
  balance :: VirtualBalance
  positions :: "Position js_map"
  history :: "Trade list"

text \<open>
  The values one call of \<^verbatim>\<open>execute\<close> draws from \<^verbatim>\<open>uuidv4()\<close> and \<^verbatim>\<open>new Date()\<close>:
  the identifier and opening time of a new position, the time stamp the balance
  takes, and the identifier and time stamp of the trade record.
\<close>

record ambient =
  balance_now :: int
  position_uuid :: string
  position_now :: int
  trade_uuid :: string
  trade_now :: int

definition executeBuy :: "ambient \<Rightarrow> OrderRequest \<Rightarrow> ledger \<Rightarrow> OrderResult \<times> ledger" where
  "executeBuy a order st =
     (let totalCost = o_shares order * o_price order;
          fees = totalCost * FEE_RATE;
          totalWithFees = totalCost + fees
      in if \<not> canAfford (balance st) totalWithFees
         then (\<lparr>success = False, trade = None,
                 error = Some [Lit ''Insufficient funds. Need $'', Fixed totalWithFees 2,
                               Lit '', have $'', Fixed (getCash (balance st)) 2],
                 newBalance = None\<rparr>, st)
         else
           (let balance' = snd (deductCash (balance_now a) totalWithFees (balance st));
                positions' = snd (addPosition (position_uuid a) (position_now a) order
                                    (o_shares order) (o_price order) (positions st));
                trade = \<lparr>t_id = trade_uuid a,
                         t_timestamp = trade_now a,
                         t_marketId = o_marketId order,
                         t_marketQuestion = o_marketQuestion order,
                         t_tokenId = o_tokenId order,
                         t_outcome = o_outcome order,
                         t_side = BUY,
                         t_shares = o_shares order,
                         t_price = o_price order,
                         t_totalCost = totalCost,
                         t_fees = fees,
                         t_realizedPnL = None\<rparr>
            in (\<lparr>success = True, trade = Some trade, error = None,
                  newBalance = Some (getCash balance')\<rparr>,
                \<lparr>balance = balance', positions = positions',
                  history = history st @ [trade]\<rparr>)))"

definition executeSell :: "ambient \<Rightarrow> OrderRequest \<Rightarrow> ledger \<Rightarrow> OrderResult \<times> ledger" where
  "executeSell a order st =
     (let positionSize = getPositionSize (positions st) (o_marketId order) (o_outcome order)
      in if positionSize < o_shares order
         then (\<lparr>success = False, trade = None,
                 error = Some [Lit ''Insufficient shares. Have '', Num positionSize,
                               Lit '', trying to sell '', Num (o_shares order)],
                 newBalance = None\<rparr>, st)
         else
           (let (result, positions') =
                  reducePosition (o_marketId order) (o_outcome order)
                    (o_shares order) (o_price order) (positions st)
            in if \<not> r_success result
               then (\<lparr>success = False, trade = None,
                       error = Some [Lit ''Failed to reduce position''],
                       newBalance = None\<rparr>, st\<lparr>positions := positions'\<rparr>)
               else
                 (let totalProceeds = o_shares order * o_price order;
                      fees = totalProceeds * FEE_RATE;
                      netProceeds = totalProceeds - fees;
                      balance' = addCash (balance_now a) netProceeds (balance st);
                      trade = \<lparr>t_id = trade_uuid a,
                               t_timestamp = trade_now a,
                               t_marketId = o_marketId order,
                               t_marketQuestion = o_marketQuestion order,
                               t_tokenId = o_tokenId order,
                               t_outcome = o_outcome order,
                               t_side = SELL,
                               t_shares = o_shares order,
                               t_price = o_price order,
                               t_totalCost = totalProceeds,
                               t_fees = fees,
                               t_realizedPnL = Some (r_realizedPnL result)\<rparr>
                  in (\<lparr>success = True, trade = Some trade, error = None,
                        newBalance = Some (getCash balance')\<rparr>,
                      \<lparr>balance = balance', positions = positions',
                        history = history st @ [trade]\<rparr>))))"

definition execute :: "ambient \<Rightarrow> OrderRequest \<Rightarrow> ledger \<Rightarrow> OrderResult \<times> ledger" where
  "execute a order st =
     (if o_side order = BUY then executeBuy a order st else executeSell a order st)"

text \<open>
  A run of the executor: the orders are executed one after the other, each with its
  own ambient values; the results are returned in order with the final ledger.
\<close>

fun execute_all :: "(ambient \<times> OrderRequest) list \<Rightarrow> ledger \<Rightarrow> OrderResult list \<times> ledger" where
  "execute_all [] st = ([], st)"
| "execute_all ((a, order) # rest) st =
     (let (r, st') = execute a order st;
          (rs, st'') = execute_all rest st'
      in (r # rs, st''))"

text \<open>The orders of a run that were executed with success, in order.\<close>

definition filled :: "(ambient \<times> OrderRequest) list \<Rightarrow> OrderResult list \<Rightarrow> OrderRequest list" where
  "filled orders rs = map (snd \<circ> fst) (filter (\<lambda>(ao, r). success r) (zip orders rs))"

text \<open>
  The ledger a new PortfolioManager starts from, for a given (non-zero) initial
  balance: the balance record of the BalanceManager constructor, no position, no trade.
\<close>

definition new_ledger :: "int \<Rightarrow> real \<Rightarrow> ledger" where
  "new_ledger now initial =
     \<lparr>balance = \<lparr>cash = initial, totalValue = initial, initialBalance = initial,
                  lastUpdated = now\<rparr>,
      positions = [], history = []\<rparr>"

text \<open>
  What one execution moves in or out of the cash, read off the order and the result:
  nothing when it failed, the cost with fees of a buy, the net proceeds of a sell.
\<close>

definition cash_flow :: "OrderRequest \<Rightarrow> OrderResult \<Rightarrow> real" where
  "cash_flow order r =
     (if \<not> success r then 0
      else if o_side order = BUY then - (o_shares order * o_price order * 1.001)
      else o_shares order * o_price order * 0.999)"

section \<open>The executor in double arithmetic\<close>

text \<open>
  A JavaScript \<^verbatim>\<open>number\<close> is an IEEE 754 double, and every arithmetic operation of
  the code returns the double nearest to the exact result, a tie going to the double
  with the even significand. \<open>double\<close> is this rounding on the reals. The doubles of
  the binade of \<open>x\<close>, the numbers of magnitude between \<open>2 powi e\<close> and \<open>2 powi (e + 1)\<close>,
  are the integer multiples of \<open>2 powi (e - 52)\<close>, which gives them a significand of
  53 bits; below \<open>2 powi (-1022)\<close> the spacing stays \<open>2 powi (-1074)\<close>, as for the
  subnormal doubles. The exponent has no upper bound here: the model follows the code
  as long as no result exceeds the largest double.
\<close>

definition round_even :: "real \<Rightarrow> int" where
  "round_even r =
     (let f = \<lfloor>r\<rfloor>
      in if r - of_int f < 1 / 2 then f
         else if r - of_int f > 1 / 2 then f + 1
         else if even f then f else f + 1)"

definition binade :: "real \<Rightarrow> int" where
  "binade x = max \<lfloor>log 2 \<bar>x\<bar>\<rfloor> (- 1022)"

definition double :: "real \<Rightarrow> real" where
  "double x =
     (if x = 0 then 0
      else of_int (round_even (x / 2 powi (binade x - 52))) * 2 powi (binade x - 52))"

text \<open>
  The operations of the BalanceManager, the PositionTracker and the TradeExecutor
  once more, with a rounding \<open>rnd\<close> applied to the result of every arithmetic
  operation, in the order in which the source evaluates them. The literal
  \<^verbatim>\<open>0.001\<close> of \<^verbatim>\<open>FEE_RATE\<close> is rounded when it is read. With \<open>double\<close> for \<open>rnd\<close>
  these are the operations as the code computes them; with the identity they are the
  operations in exact arithmetic of the preceding sections.
\<close>

definition FEE_RATE_fl :: "(real \<Rightarrow> real) \<Rightarrow> real" where
  "FEE_RATE_fl rnd = rnd 0.001"

definition deductCash_fl ::
  "(real \<Rightarrow> real) \<Rightarrow> int \<Rightarrow> real \<Rightarrow> VirtualBalance \<Rightarrow> bool \<times> VirtualBalance"
where
  "deductCash_fl rnd now amount b =
     (if \<not> canAfford b amount then (False, b)
      else (True, b\<lparr>cash := rnd (cash b - amount), lastUpdated := now\<rparr>))"

definition addCash_fl :: "(real \<Rightarrow> real) \<Rightarrow> int \<Rightarrow> real \<Rightarrow> VirtualBalance \<Rightarrow> VirtualBalance" where
  "addCash_fl rnd now amount b = b\<lparr>cash := rnd (cash b + amount), lastUpdated := now\<rparr>"

definition addPosition_fl ::
  "(real \<Rightarrow> real) \<Rightarrow> string \<Rightarrow> int \<Rightarrow> OrderRequest \<Rightarrow> real \<Rightarrow> real \<Rightarrow> Position js_map
     \<Rightarrow> Position \<times> Position js_map"
where
  "addPosition_fl rnd uuid now order shares price ps =
     (let key = position_key (o_marketId order) (o_outcome order) in
      case Map_get ps key of
        Some existing \<Rightarrow>
          (let totalShares = rnd (p_shares existing + shares);
               totalCost = rnd (rnd (p_shares existing * p_avgPrice existing)
                                + rnd (shares * price));
               newAvgPrice = rnd (totalCost / totalShares);
               existing' = existing\<lparr>p_shares := totalShares,
                                     p_avgPrice := newAvgPrice,
                                     p_currentPrice := price,
                                     p_unrealizedPnL := rnd (rnd (price - newAvgPrice) * totalShares)\<rparr>
           in (existing', Map_set ps key existing'))
      | None \<Rightarrow>
          (let position = \<lparr>p_id = uuid,
                           p_marketId = o_marketId order,
                           p_marketQuestion = o_marketQuestion order,
                           p_tokenId = o_tokenId order,
                           p_outcome = o_outcome order,
                           p_shares = shares,
                           p_avgPrice = price,
                           p_currentPrice = price,
                           p_unrealizedPnL = 0,
                           p_openedAt = now\<rparr>
           in (position, Map_set ps key position)))"

definition reducePosition_fl ::
  "(real \<Rightarrow> real) \<Rightarrow> string \<Rightarrow> string \<Rightarrow> real \<Rightarrow> real \<Rightarrow> Position js_map
     \<Rightarrow> ReduceResult \<times> Position js_map"
where
  "reducePosition_fl rnd marketId outcome shares sellPrice ps =
     (let key = position_key marketId outcome in
      case Map_get ps key of
        None \<Rightarrow> (\<lparr>r_success = False, r_realizedPnL = 0, r_remainingShares = 0\<rparr>, ps)
      | Some position \<Rightarrow>
          if p_shares position < shares
          then (\<lparr>r_success = False, r_realizedPnL = 0,
                 r_remainingShares = (if p_shares position = 0 then 0 else p_shares position)\<rparr>, ps)
          else
            (let realizedPnL = rnd (rnd (sellPrice - p_avgPrice position) * shares);
                 remaining = rnd (p_shares position - shares)
             in if remaining \<le> 0
                then (\<lparr>r_success = True, r_realizedPnL = realizedPnL, r_remainingShares = 0\<rparr>,
                      Map_delete ps key)
                else
                  (let position' = position\<lparr>p_shares := remaining,
                                             p_currentPrice := sellPrice,
                                             p_unrealizedPnL :=
                                               rnd (rnd (sellPrice - p_avgPrice position) * remaining)\<rparr>
                   in (\<lparr>r_success = True, r_realizedPnL = realizedPnL,
                         r_remainingShares = remaining\<rparr>,
                       Map_set ps key position'))))"

definition executeBuy_fl ::
  "(real \<Rightarrow> real) \<Rightarrow> ambient \<Rightarrow> OrderRequest \<Rightarrow> ledger \<Rightarrow> OrderResult \<times> ledger"
where
  "executeBuy_fl rnd a order st =
     (let totalCost = rnd (o_shares order * o_price order);
          fees = rnd (totalCost * FEE_RATE_fl rnd);
          totalWithFees = rnd (totalCost + fees)
      in if \<not> canAfford (balance st) totalWithFees
         then (\<lparr>success = False, trade = None,
                 error = Some [Lit ''Insufficient funds. Need $'', Fixed totalWithFees 2,
                               Lit '', have $'', Fixed (getCash (balance st)) 2],
                 newBalance = None\<rparr>, st)
         else
           (let balance' = snd (deductCash_fl rnd (balance_now a) totalWithFees (balance st));
                positions' = snd (addPosition_fl rnd (position_uuid a) (position_now a) order
                                    (o_shares order) (o_price order) (positions st));
                trade = \<lparr>t_id = trade_uuid a,
                         t_timestamp = trade_now a,
                         t_marketId = o_marketId order,
                         t_marketQuestion = o_marketQuestion order,
                         t_tokenId = o_tokenId order,
                         t_outcome = o_outcome order,
                         t_side = BUY,
                         t_shares = o_shares order,
                         t_price = o_price order,
                         t_totalCost = totalCost,
                         t_fees = fees,
                         t_realizedPnL = None\<rparr>
            in (\<lparr>success = True, trade = Some trade, error = None,
                  newBalance = Some (getCash balance')\<rparr>,
                \<lparr>balance = balance', positions = positions',
                  history = history st @ [trade]\<rparr>)))"

definition executeSell_fl ::
  "(real \<Rightarrow> real) \<Rightarrow> ambient \<Rightarrow> OrderRequest \<Rightarrow> ledger \<Rightarrow> OrderResult \<times> ledger"
where
  "executeSell_fl rnd a order st =
     (let positionSize = getPositionSize (positions st) (o_marketId order) (o_outcome order)
      in if positionSize < o_shares order
         then (\<lparr>success = False, trade = None,
                 error = Some [Lit ''Insufficient shares. Have '', Num positionSize,
                               Lit '', trying to sell '', Num (o_shares order)],
                 newBalance = None\<rparr>, st)
         else
           (let (result, positions') =
                  reducePosition_fl rnd (o_marketId order) (o_outcome order)
                    (o_shares order) (o_price order) (positions st)
            in if \<not> r_success result
               then (\<lparr>success = False, trade = None,
                       error = Some [Lit ''Failed to reduce position''],
                       newBalance = None\<rparr>, st\<lparr>positions := positions'\<rparr>)
               else
                 (let totalProceeds = rnd (o_shares order * o_price order);
                      fees = rnd (totalProceeds * FEE_RATE_fl rnd);
                      netProceeds = rnd (totalProceeds - fees);
                      balance' = addCash_fl rnd (balance_now a) netProceeds (balance st);
                      trade = \<lparr>t_id = trade_uuid a,
                               t_timestamp = trade_now a,
                               t_marketId = o_marketId order,
                               t_marketQuestion = o_marketQuestion order,
                               t_tokenId = o_tokenId order,
                               t_outcome = o_outcome order,
                               t_side = SELL,
                               t_shares = o_shares order,
                               t_price = o_price order,
                               t_totalCost = totalProceeds,
                               t_fees = fees,
                               t_realizedPnL = Some (r_realizedPnL result)\<rparr>
                  in (\<lparr>success = True, trade = Some trade, error = None,
                        newBalance = Some (getCash balance')\<rparr>,
                      \<lparr>balance = balance', positions = positions',
                        history = history st @ [trade]\<rparr>))))"

definition execute_fl ::
  "(real \<Rightarrow> real) \<Rightarrow> ambient \<Rightarrow> OrderRequest \<Rightarrow> ledger \<Rightarrow> OrderResult \<times> ledger"
where
  "execute_fl rnd a order st =
     (if o_side order = BUY then executeBuy_fl rnd a order st else executeSell_fl rnd a order st)"

fun execute_all_fl ::
  "(real \<Rightarrow> real) \<Rightarrow> (ambient \<times> OrderRequest) list \<Rightarrow> ledger \<Rightarrow> OrderResult list \<times> ledger"
where
  "execute_all_fl rnd [] st = ([], st)"
| "execute_all_fl rnd ((a, order) # rest) st =
     (let (r, st') = execute_fl rnd a order st;
          (rs, st'') = execute_all_fl rnd rest st'
      in (r # rs, st''))"

text \<open>
  What a buy takes out of the cash and what a sell puts into it, as the executor
  computes them, and the cash after one successful order.
\<close>

definition totalWithFees_fl :: "(real \<Rightarrow> real) \<Rightarrow> OrderRequest \<Rightarrow> real" where
  "totalWithFees_fl rnd order =
     (let totalCost = rnd (o_shares order * o_price order);
          fees = rnd (totalCost * FEE_RATE_fl rnd)
      in rnd (totalCost + fees))"

definition netProceeds_fl :: "(real \<Rightarrow> real) \<Rightarrow> OrderRequest \<Rightarrow> real" where
  "netProceeds_fl rnd order =
     (let totalProceeds = rnd (o_shares order * o_price order);
          fees = rnd (totalProceeds * FEE_RATE_fl rnd)
      in rnd (totalProceeds - fees))"

definition cash_step :: "(real \<Rightarrow> real) \<Rightarrow> real \<Rightarrow> OrderRequest \<Rightarrow> real" where
  "cash_step rnd c order =
     (if o_side order = BUY then rnd (c - totalWithFees_fl rnd order)
      else rnd (c + netProceeds_fl rnd order))"

section \<open>MarketAnalyzer\<close>

text \<open>
  Of a market snapshot (\<^verbatim>\<open>EnrichedMarket\<close>) the analyzer and the risk manager read the
  condition id and the two quoted prices.
\<close>

record EnrichedMarket =
  condition_id :: string
  question :: string
  yesPrice :: real
  noPrice :: real

datatype StrategyType = momentum | contrarian | value_strategy | random | balanced | llm

datatype signal = BUY_YES | BUY_NO | SELL_YES | SELL_NO | HOLD | DCA

record MarketAnalysis =
  a_market :: EnrichedMarket
  a_signal :: signal
  a_confidence :: real
  a_reason :: message
  a_suggestedSize :: real

definition calculateSize :: "real \<Rightarrow> real" where
  "calculateSize strength =
     (let baseSize = 100;
          scaledSize = baseSize * \<bar>strength\<bar> * 5
      in max 10 (min 500 scaledSize))"

definition analyzeMomentum :: "EnrichedMarket \<Rightarrow> MarketAnalysis" where
  "analyzeMomentum m =
     (if yesPrice m > 0.6 then
        \<lparr>a_market = m, a_signal = BUY_YES, a_confidence = min (yesPrice m) 0.9,
         a_reason = [Lit ''Strong YES momentum ('', Fixed (yesPrice m * 100) 1, Lit ''%)''],
         a_suggestedSize = calculateSize (yesPrice m - 0.5)\<rparr>
      else if noPrice m > 0.6 then
        \<lparr>a_market = m, a_signal = BUY_NO, a_confidence = min (noPrice m) 0.9,
         a_reason = [Lit ''Strong NO momentum ('', Fixed (noPrice m * 100) 1, Lit ''%)''],
         a_suggestedSize = calculateSize (noPrice m - 0.5)\<rparr>
      else
        \<lparr>a_market = m, a_signal = HOLD, a_confidence = 0.3,
         a_reason = [Lit ''No clear momentum signal''], a_suggestedSize = 0\<rparr>)"

definition analyzeContrarian :: "EnrichedMarket \<Rightarrow> MarketAnalysis" where
  "analyzeContrarian m =
     (if yesPrice m < 0.25 \<and> yesPrice m > 0.05 then
        \<lparr>a_market = m, a_signal = BUY_YES, a_confidence = 0.6,
         a_reason = [Lit ''Contrarian YES play - undervalued at '',
                     Fixed (yesPrice m * 100) 1, Lit ''%''],
         a_suggestedSize = calculateSize (0.25 - yesPrice m)\<rparr>
      else if noPrice m < 0.25 \<and> noPrice m > 0.05 then
        \<lparr>a_market = m, a_signal = BUY_NO, a_confidence = 0.6,
         a_reason = [Lit ''Contrarian NO play - undervalued at '',
                     Fixed (noPrice m * 100) 1, Lit ''%''],
         a_suggestedSize = calculateSize (0.25 - noPrice m)\<rparr>
      else
        \<lparr>a_market = m, a_signal = HOLD, a_confidence = 0.3,
         a_reason = [Lit ''No contrarian opportunity''], a_suggestedSize = 0\<rparr>)"

definition analyzeValue :: "EnrichedMarket \<Rightarrow> MarketAnalysis" where
  "analyzeValue m =
     (if \<bar>yesPrice m - 0.5\<bar> < 0.15 then
        (let signal = (if yesPrice m < 0.5 then BUY_YES else BUY_NO)
         in \<lparr>a_market = m, a_signal = signal, a_confidence = 0.55,
             a_reason = [Lit ''Value play in balanced market ('',
                         Fixed (yesPrice m * 100) 1, Lit ''% YES)''],
             a_suggestedSize = calculateSize 0.1\<rparr>)
      else
        \<lparr>a_market = m, a_signal = HOLD, a_confidence = 0.3,
         a_reason = [Lit ''Market not in value zone''], a_suggestedSize = 0\<rparr>)"

text \<open>The argument \<open>rnd\<close> is the draw of \<^verbatim>\<open>Math.random()\<close>.\<close>

definition analyzeRandom :: "real \<Rightarrow> EnrichedMarket \<Rightarrow> MarketAnalysis" where
  "analyzeRandom rnd m =
     (if rnd < 0.3 then
        \<lparr>a_market = m, a_signal = BUY_YES, a_confidence = 0.5,
         a_reason = [Lit ''Random YES selection''], a_suggestedSize = calculateSize 0.2\<rparr>
      else if rnd < 0.6 then
        \<lparr>a_market = m, a_signal = BUY_NO, a_confidence = 0.5,
         a_reason = [Lit ''Random NO selection''], a_suggestedSize = calculateSize 0.2\<rparr>
      else
        \<lparr>a_market = m, a_signal = HOLD, a_confidence = 0.5,
         a_reason = [Lit ''Random hold decision''], a_suggestedSize = 0\<rparr>)"

definition analyzeBalanced :: "EnrichedMarket \<Rightarrow> MarketAnalysis" where
  "analyzeBalanced m =
     (if yesPrice m > 0.7 then
        \<lparr>a_market = m, a_signal = BUY_YES, a_confidence = 0.7,
         a_reason = [Lit ''Balanced: Strong YES probability ('',
                     Fixed (yesPrice m * 100) 1, Lit ''%)''],
         a_suggestedSize = calculateSize (yesPrice m - 0.5)\<rparr>
      else if noPrice m > 0.7 then
        \<lparr>a_market = m, a_signal = BUY_NO, a_confidence = 0.7,
         a_reason = [Lit ''Balanced: Strong NO probability ('',
                     Fixed (noPrice m * 100) 1, Lit ''%)''],
         a_suggestedSize = calculateSize (noPrice m - 0.5)\<rparr>
      else if yesPrice m < 0.2 \<and> yesPrice m > 0.05 then
        \<lparr>a_market = m, a_signal = BUY_YES, a_confidence = 0.5,
         a_reason = [Lit ''Balanced: Contrarian YES at '', Fixed (yesPrice m * 100) 1, Lit ''%''],
         a_suggestedSize = calculateSize 0.15\<rparr>
      else if noPrice m < 0.2 \<and> noPrice m > 0.05 then
        \<lparr>a_market = m, a_signal = BUY_NO, a_confidence = 0.5,
         a_reason = [Lit ''Balanced: Contrarian NO at '', Fixed (noPrice m * 100) 1, Lit ''%''],
         a_suggestedSize = calculateSize 0.15\<rparr>
      else
        \<lparr>a_market = m, a_signal = HOLD, a_confidence = 0.4,
         a_reason = [Lit ''Balanced: No clear opportunity''], a_suggestedSize = 0\<rparr>)"

definition analyze :: "real \<Rightarrow> EnrichedMarket \<Rightarrow> StrategyType \<Rightarrow> MarketAnalysis" where
  "analyze rnd m strategy =
     (if strategy = llm then
        \<lparr>a_market = m, a_signal = HOLD, a_confidence = 0,
         a_reason = [Lit ''Use analyzeLLM() for LLM strategy''], a_suggestedSize = 0\<rparr>
      else
        (case strategy of
           momentum \<Rightarrow> analyzeMomentum m
         | contrarian \<Rightarrow> analyzeContrarian m
         | value_strategy \<Rightarrow> analyzeValue m
         | random \<Rightarrow> analyzeRandom rnd m
         | balanced \<Rightarrow> analyzeBalanced m
         | _ \<Rightarrow> analyzeBalanced m))"

section \<open>RiskManager\<close>

record AgentConfig =
  strategy :: StrategyType
  maxPositionSize :: real
  maxPositions :: real
  minConfidence :: real
  autoTrade :: bool
  tradeIntervalMs :: real
  riskLevel :: nat
  dcaEnabled :: bool






section \<open>Serialization and restore\<close>

text \<open>
  \<^verbatim>\<open>serialize\<close> and \<^verbatim>\<open>restore\<close> work on untyped data: \<^verbatim>\<open>restore\<close> stores whatever
  \<^verbatim>\<open>JSON.parse\<close> returns, after reviving one date field, without looking at its shape.
  This part of the engine is therefore modelled on run-time values: the values of
  JSON, \<^verbatim>\<open>undefined\<close>, and \<^verbatim>\<open>Date\<close> objects (a time value, or the invalid date). An
  object is the list of its own properties in property order.
\<close>

datatype date = Time int | Invalid_Date

datatype jsval =
    JUndefined
  | JNull
  | JBool bool
  | JNum real
  | JStr string
  | JDate date
  | JArr "jsval list"
  | JObj "(string \<times> jsval) list"

text \<open>
  A call returns, or throws with the state as it is at the throw. A \<^verbatim>\<open>try\<close> block
  whose \<^verbatim>\<open>catch\<close> only writes to the console returns in both cases, with that state.
\<close>

datatype exn = SyntaxError | TypeError

datatype 's outcome = Returns 's | Throws exn 's

definition catch :: "'s outcome \<Rightarrow> 's outcome" where
  "catch body = (case body of Returns s \<Rightarrow> Returns s | Throws e s \<Rightarrow> Returns s)"

text \<open>
  The state a call leaves, whether it returned or threw.
\<close>

definition settled :: "'s outcome \<Rightarrow> 's" where
  "settled x = (case x of Returns s \<Rightarrow> s | Throws e s \<Rightarrow> s)"

text \<open>
  The built-ins of the language that the code calls are parameters of the model:
  \<^verbatim>\<open>JSON.parse\<close> (\<open>None\<close> when it throws a \<^verbatim>\<open>SyntaxError\<close>; its argument is converted
  to a string first, so it is defined on every value), \<^verbatim>\<open>JSON.stringify\<close>, the
  constructor \<^verbatim>\<open>new Date(v)\<close> (\<open>None\<close> when the conversion of \<open>v\<close> throws) and
  \<^verbatim>\<open>Date.prototype.toISOString\<close>, the text \<^verbatim>\<open>JSON.stringify\<close> writes for a valid date.
\<close>

record builtins =
  JSON_parse :: "jsval \<Rightarrow> jsval option"
  JSON_stringify :: "jsval \<Rightarrow> string"
  new_Date :: "jsval \<Rightarrow> date option"
  toISOString :: "int \<Rightarrow> string"

text \<open>Truthiness, as \<^verbatim>\<open>if (parsed.balance)\<close> tests it.\<close>

fun truthy :: "jsval \<Rightarrow> bool" where
  "truthy JUndefined = False"
| "truthy JNull = False"
| "truthy (JBool b) = b"
| "truthy (JNum n) = (n \<noteq> 0)"
| "truthy (JStr s) = (s \<noteq> [])"
| "truthy _ = True"

text \<open>
  Reading a property, for the names the code reads (\<^verbatim>\<open>balance\<close>, \<^verbatim>\<open>positions\<close>,
  \<^verbatim>\<open>trades\<close>, \<^verbatim>\<open>lastUpdated\<close>, \<^verbatim>\<open>openedAt\<close>, \<^verbatim>\<open>timestamp\<close>; none of them is an index
  or a member of a built-in prototype): a \<^verbatim>\<open>TypeError\<close> (\<open>None\<close>) on \<^verbatim>\<open>null\<close> and
  \<^verbatim>\<open>undefined\<close>, the own property of an object, \<^verbatim>\<open>undefined\<close> otherwise.
\<close>

fun get_prop :: "jsval \<Rightarrow> string \<Rightarrow> jsval option" where
  "get_prop JUndefined name = None"
| "get_prop JNull name = None"
| "get_prop (JObj kvs) name = Some (case map_of kvs name of Some v \<Rightarrow> v | None \<Rightarrow> JUndefined)"
| "get_prop _ name = Some JUndefined"

text \<open>
  Object spread \<^verbatim>\<open>{...v}\<close>: the own properties of an object, the indexed elements of
  an array or of a string, nothing for the other values. \<open>obj_set\<close> is the property
  that follows the spread in the object literal: it replaces a property of that name
  in place, or is added last.
\<close>

function show_nat :: "nat \<Rightarrow> string" where
  "show_nat n =
     (if n < 10 then [char_of (48 + n)]
      else show_nat (n div 10) @ [char_of (48 + n mod 10)])"
  by pat_completeness auto
termination
  by (relation "measure id") auto

definition indexed :: "jsval list \<Rightarrow> (string \<times> jsval) list" where
  "indexed xs = map (\<lambda>(i, x). (show_nat i, x)) (enumerate 0 xs)"

fun spread :: "jsval \<Rightarrow> (string \<times> jsval) list" where
  "spread (JObj kvs) = kvs"
| "spread (JArr xs) = indexed xs"
| "spread (JStr s) = indexed (map (\<lambda>c. JStr [c]) s)"
| "spread _ = []"

fun obj_set :: "(string \<times> jsval) list \<Rightarrow> string \<Rightarrow> jsval \<Rightarrow> (string \<times> jsval) list" where
  "obj_set [] name v = [(name, v)]"
| "obj_set ((k, x) # kvs) name v =
     (if k = name then (k, v) # kvs else (k, x) # obj_set kvs name v)"

text \<open>
  What \<^verbatim>\<open>JSON.parse(JSON.stringify(v))\<close> is by the language standard: a valid date has
  become its ISO text and an invalid one \<^verbatim>\<open>null\<close>, an \<^verbatim>\<open>undefined\<close> property is
  dropped and an \<^verbatim>\<open>undefined\<close> array element is \<^verbatim>\<open>null\<close>.
\<close>

fun json_image :: "(int \<Rightarrow> string) \<Rightarrow> jsval \<Rightarrow> jsval" where
  "json_image fmt (JDate (Time t)) = JStr (fmt t)"
| "json_image fmt (JDate Invalid_Date) = JNull"
| "json_image fmt (JArr xs) =
     JArr (map (\<lambda>x. if x = JUndefined then JNull else json_image fmt x) xs)"
| "json_image fmt (JObj kvs) =
     JObj (map (\<lambda>(k, x). (k, json_image fmt x)) (filter (\<lambda>(k, x). x \<noteq> JUndefined) kvs))"
| "json_image fmt v = v"

text \<open>
  The array destructuring \<^verbatim>\<open>([key, pos]) => ...\<close>: the first two elements of an array
  or of a string (\<^verbatim>\<open>undefined\<close> where there is none), a \<^verbatim>\<open>TypeError\<close> (\<open>None\<close>) for
  a value that is not iterable. \<open>Array_map\<close> is \<^verbatim>\<open>Array.prototype.map\<close> with a
  callback that may throw: the first throw ends the loop.
\<close>

definition element :: "jsval list \<Rightarrow> nat \<Rightarrow> jsval" where
  "element xs i = (if i < length xs then xs ! i else JUndefined)"

fun destructure_pair :: "jsval \<Rightarrow> (jsval \<times> jsval) option" where
  "destructure_pair (JArr xs) = Some (element xs 0, element xs 1)"
| "destructure_pair (JStr s) =
     Some (element (map (\<lambda>c. JStr [c]) s) 0, element (map (\<lambda>c. JStr [c]) s) 1)"
| "destructure_pair _ = None"

fun Array_map :: "('a \<Rightarrow> exn + 'b) \<Rightarrow> 'a list \<Rightarrow> exn + 'b list" where
  "Array_map f [] = Inr []"
| "Array_map f (x # xs) =
     (case f x of
        Inl e \<Rightarrow> Inl e
      | Inr y \<Rightarrow> (case Array_map f xs of Inl e \<Rightarrow> Inl e | Inr ys \<Rightarrow> Inr (y # ys)))"

text \<open>
  A \<^verbatim>\<open>Map\<close> built from arbitrary keys: keys are compared by value when they are
  primitive; an object key is equal to itself only, and the keys that come out of
  \<^verbatim>\<open>JSON.parse\<close> are all fresh objects. \<^verbatim>\<open>new Map(pairs)\<close> sets the pairs in order.
\<close>

type_synonym any_map = "(jsval \<times> jsval) list"

fun primitive :: "jsval \<Rightarrow> bool" where
  "primitive (JDate d) = False"
| "primitive (JArr xs) = False"
| "primitive (JObj kvs) = False"
| "primitive _ = True"

definition same_key :: "jsval \<Rightarrow> jsval \<Rightarrow> bool" where
  "same_key k' k = (primitive k \<and> k' = k)"

fun JMap_set :: "any_map \<Rightarrow> jsval \<Rightarrow> jsval \<Rightarrow> any_map" where
  "JMap_set [] k v = [(k, v)]"
| "JMap_set ((k', v') # m) k v =
     (if same_key k' k then (k', v) # m else (k', v') # JMap_set m k v)"

definition new_Map :: "(jsval \<times> jsval) list \<Rightarrow> any_map" where
  "new_Map pairs = foldl (\<lambda>m (k, v). JMap_set m k v) [] pairs"

definition entries :: "any_map \<Rightarrow> jsval list" where
  "entries m = map (\<lambda>(k, v). JArr [k, v]) m"

subsection \<open>BalanceManager\<close>

definition BalanceManager_serialize :: "builtins \<Rightarrow> jsval \<Rightarrow> string" where
  "BalanceManager_serialize B balance0 = JSON_stringify B balance0"

definition BalanceManager_restore :: "builtins \<Rightarrow> jsval \<Rightarrow> jsval \<Rightarrow> jsval outcome" where
  "BalanceManager_restore B data balance0 =
     catch
       (case JSON_parse B data of
          None \<Rightarrow> Throws SyntaxError balance0
        | Some parsed \<Rightarrow>
            (case get_prop parsed ''lastUpdated'' of
               None \<Rightarrow> Throws TypeError balance0
             | Some stamp \<Rightarrow>
                 (case new_Date B stamp of
                    None \<Rightarrow> Throws TypeError balance0
                  | Some d \<Rightarrow>
                      Returns (JObj (obj_set (spread parsed) ''lastUpdated'' (JDate d))))))"

subsection \<open>PositionTracker\<close>

definition PositionTracker_serialize :: "builtins \<Rightarrow> any_map \<Rightarrow> string" where
  "PositionTracker_serialize B positions0 = JSON_stringify B (JArr (entries positions0))"

definition restore_entry :: "builtins \<Rightarrow> jsval \<Rightarrow> exn + (jsval \<times> jsval)" where
  "restore_entry B entry =
     (case destructure_pair entry of
        None \<Rightarrow> Inl TypeError
      | Some (key, pos) \<Rightarrow>
          (case get_prop pos ''openedAt'' of
             None \<Rightarrow> Inl TypeError
           | Some stamp \<Rightarrow>
               (case new_Date B stamp of
                  None \<Rightarrow> Inl TypeError
                | Some d \<Rightarrow> Inr (key, JObj (obj_set (spread pos) ''openedAt'' (JDate d))))))"

definition PositionTracker_restore :: "builtins \<Rightarrow> jsval \<Rightarrow> any_map \<Rightarrow> any_map outcome" where
  "PositionTracker_restore B data positions0 =
     catch
       (case JSON_parse B data of
          None \<Rightarrow> Throws SyntaxError positions0
        | Some parsed \<Rightarrow>
            (case parsed of
               JArr xs \<Rightarrow>
                 (case Array_map (restore_entry B) xs of
                    Inl e \<Rightarrow> Throws e positions0
                  | Inr pairs \<Rightarrow> Returns (new_Map pairs))
             | _ \<Rightarrow> Throws TypeError positions0))"

subsection \<open>TradeExecutor\<close>

definition TradeExecutor_serialize :: "builtins \<Rightarrow> jsval list \<Rightarrow> string" where
  "TradeExecutor_serialize B history0 = JSON_stringify B (JArr history0)"

definition restore_trade :: "builtins \<Rightarrow> jsval \<Rightarrow> exn + jsval" where
  "restore_trade B t =
     (case get_prop t ''timestamp'' of
        None \<Rightarrow> Inl TypeError
      | Some stamp \<Rightarrow>
          (case new_Date B stamp of
             None \<Rightarrow> Inl TypeError
           | Some d \<Rightarrow> Inr (JObj (obj_set (spread t) ''timestamp'' (JDate d)))))"

definition TradeExecutor_restore :: "builtins \<Rightarrow> jsval \<Rightarrow> jsval list \<Rightarrow> jsval list outcome" where
  "TradeExecutor_restore B data history0 =
     catch
       (case JSON_parse B data of
          None \<Rightarrow> Throws SyntaxError history0
        | Some parsed \<Rightarrow>
            (case parsed of
               JArr xs \<Rightarrow>
                 (case Array_map (restore_trade B) xs of
                    Inl e \<Rightarrow> Throws e history0
                  | Inr ts \<Rightarrow> Returns ts)
             | _ \<Rightarrow> Throws TypeError history0))"

subsection \<open>PortfolioManager\<close>

text \<open>The three components as they are in memory.\<close>

record memory =
  m_balance :: jsval
  m_positions :: any_map
  m_history :: "jsval list"

definition PortfolioManager_serialize :: "builtins \<Rightarrow> memory \<Rightarrow> string" where
  "PortfolioManager_serialize B st =
     JSON_stringify B
       (JObj [(''balance'', JStr (BalanceManager_serialize B (m_balance st))),
              (''positions'', JStr (PositionTracker_serialize B (m_positions st))),
              (''trades'', JStr (TradeExecutor_serialize B (m_history st)))])"

definition PortfolioManager_restore :: "builtins \<Rightarrow> jsval \<Rightarrow> memory \<Rightarrow> memory outcome" where
  "PortfolioManager_restore B data st =
     catch
       (case JSON_parse B data of
          None \<Rightarrow> Throws SyntaxError st
        | Some parsed \<Rightarrow>
            (case get_prop parsed ''balance'' of
               None \<Rightarrow> Throws TypeError st
             | Some b \<Rightarrow>
                 (case (if truthy b then BalanceManager_restore B b (m_balance st)
                        else Returns (m_balance st)) of
                    Throws e bal \<Rightarrow> Throws e (st\<lparr>m_balance := bal\<rparr>)
                  | Returns bal \<Rightarrow>
                      (let st1 = st\<lparr>m_balance := bal\<rparr> in
                       case get_prop parsed ''positions'' of
                         None \<Rightarrow> Throws TypeError st1
                       | Some p \<Rightarrow>
                           (case (if truthy p then PositionTracker_restore B p (m_positions st1)
                                  else Returns (m_positions st1)) of
                              Throws e ps \<Rightarrow> Throws e (st1\<lparr>m_positions := ps\<rparr>)
                            | Returns ps \<Rightarrow>
                                (let st2 = st1\<lparr>m_positions := ps\<rparr> in
                                 case get_prop parsed ''trades'' of
                                   None \<Rightarrow> Throws TypeError st2
                                 | Some t \<Rightarrow>
                                     (case (if truthy t
                                            then TradeExecutor_restore B t (m_history st2)
                                            else Returns (m_history st2)) of
                                        Throws e h \<Rightarrow> Throws e (st2\<lparr>m_history := h\<rparr>)
                                      | Returns h \<Rightarrow> Returns (st2\<lparr>m_history := h\<rparr>))))))))"

subsection \<open>The typed records as run-time values\<close>

text \<open>
  The object of a record has the record's fields in the order in which the object
  literal of the source lists them; a BUY trade has no \<^verbatim>\<open>realizedPnL\<close> property.
\<close>

definition VirtualBalance_obj :: "VirtualBalance \<Rightarrow> jsval" where
  "VirtualBalance_obj b =
     JObj [(''cash'', JNum (cash b)),
           (''totalValue'', JNum (totalValue b)),
           (''initialBalance'', JNum (initialBalance b)),
           (''lastUpdated'', JDate (Time (lastUpdated b)))]"

definition Position_obj :: "Position \<Rightarrow> jsval" where
  "Position_obj p =
     JObj [(''id'', JStr (p_id p)),
           (''marketId'', JStr (p_marketId p)),
           (''marketQuestion'', JStr (p_marketQuestion p)),
           (''tokenId'', JStr (p_tokenId p)),
           (''outcome'', JStr (p_outcome p)),
           (''shares'', JNum (p_shares p)),
           (''avgPrice'', JNum (p_avgPrice p)),
           (''currentPrice'', JNum (p_currentPrice p)),
           (''unrealizedPnL'', JNum (p_unrealizedPnL p)),
           (''openedAt'', JDate (Time (p_openedAt p)))]"

definition Trade_obj :: "Trade \<Rightarrow> jsval" where
  "Trade_obj t =
     JObj ([(''id'', JStr (t_id t)),
            (''timestamp'', JDate (Time (t_timestamp t))),
            (''marketId'', JStr (t_marketId t)),
            (''marketQuestion'', JStr (t_marketQuestion t)),
            (''tokenId'', JStr (t_tokenId t)),
            (''outcome'', JStr (t_outcome t)),
            (''side'', JStr (case t_side t of BUY \<Rightarrow> ''BUY'' | SELL \<Rightarrow> ''SELL'')),
            (''shares'', JNum (t_shares t)),
            (''price'', JNum (t_price t)),
            (''totalCost'', JNum (t_totalCost t)),
            (''fees'', JNum (t_fees t))]
           @ (case t_realizedPnL t of None \<Rightarrow> [] | Some pnl \<Rightarrow> [(''realizedPnL'', JNum pnl)]))"

definition positions_map :: "Position js_map \<Rightarrow> any_map" where
  "positions_map ps = map (\<lambda>(k, p). (JStr k, Position_obj p)) ps"

definition ledger_memory :: "ledger \<Rightarrow> memory" where
  "ledger_memory st =
     \<lparr>m_balance = VirtualBalance_obj (balance st),
      m_positions = positions_map (positions st),
      m_history = map Trade_obj (history st)\<rparr>"

text \<open>
  The two guarantees of the language on which a round trip rests: \<^verbatim>\<open>JSON.parse\<close>
  reads back what \<^verbatim>\<open>JSON.stringify\<close> wrote for a value, and \<^verbatim>\<open>new Date\<close> reads back
  the ISO text of a time value.
\<close>

definition round_trips :: "builtins \<Rightarrow> jsval \<Rightarrow> bool" where
  "round_trips B v =
     (JSON_parse B (JStr (JSON_stringify B v)) = Some (json_image (toISOString B) v))"

definition revives :: "builtins \<Rightarrow> int \<Rightarrow> bool" where
  "revives B t = (new_Date B (JStr (toISOString B t)) = Some (Time t))"

text \<open>
  A sub-field of a parsed bundle is skipped or rejected when the bundle has no
  properties at all (it is \<^verbatim>\<open>null\<close>), when the field is absent or falsy, or when
  \<^verbatim>\<open>JSON.parse\<close> throws on it.
\<close>

definition unusable :: "builtins \<Rightarrow> jsval \<Rightarrow> string \<Rightarrow> bool" where
  "unusable B parsed name =
     (case get_prop parsed name of
        None \<Rightarrow> True
      | Some v \<Rightarrow> \<not> truthy v \<or> JSON_parse B v = None)"

section \<open>Sample data\<close>

definition sample_ambient :: "int \<Rightarrow> ambient" where
  "sample_ambient n =
     \<lparr>balance_now = n, position_uuid = ''position-uuid'', position_now = n,
      trade_uuid = ''trade-uuid'', trade_now = n\<rparr>"

definition sample_order :: "side \<Rightarrow> real \<Rightarrow> real \<Rightarrow> OrderRequest" where
  "sample_order sd sh pr =
     \<lparr>o_marketId = ''0xabc'', o_marketQuestion = ''Will it rain?'', o_tokenId = ''71'',
      o_outcome = ''YES'', o_side = sd, o_shares = sh, o_price = pr\<rparr>"

definition sample_position :: "real \<Rightarrow> real \<Rightarrow> Position" where
  "sample_position sh avg =
     \<lparr>p_id = ''position-uuid'', p_marketId = ''0xabc'', p_marketQuestion = ''Will it rain?'',
      p_tokenId = ''71'', p_outcome = ''YES'', p_shares = sh, p_avgPrice = avg,
      p_currentPrice = avg, p_unrealizedPnL = 0, p_openedAt = 1\<rparr>"

text \<open>
  Two buys in the same market from a cash of 100. The share counts and the prices are
  doubles: 3, 0.875, 1 and 0.25 are dyadic fractions.
\<close>

definition two_buys :: "(ambient \<times> OrderRequest) list" where
  "two_buys =
     [(sample_ambient 1, sample_order BUY 3 0.875),
      (sample_ambient 2, sample_order BUY 1 0.25)]"

text \<open>
  The ledger after scenarios A to C of the specification in exact arithmetic: 1200
  shares held, bought at 0.4333 on average.
\<close>

definition scenario_ledger :: ledger where
  "scenario_ledger =
     \<lparr>balance = \<lparr>cash = 99529.17, totalValue = 100000, initialBalance = 100000,
                  lastUpdated = 3\<rparr>,
      positions = [(''0xabc-YES'', sample_position 1200 (13 / 30))],
      history = []\<rparr>"

definition sample_market :: "real \<Rightarrow> real \<Rightarrow> EnrichedMarket" where
  "sample_market y n =
     \<lparr>condition_id = ''0xabc'', question = ''Will it rain?'', yesPrice = y, noPrice = n\<rparr>"





text \<open>
  Sample values for serialization, and the built-ins at these values: the ISO text of
  the time values 1 and 3, the JSON text of the sample balance, position map and trade
  history, and \<^verbatim>\<open>JSON.parse\<close> on these texts, on the texts \<^verbatim>\<open>{}\<close>, \<^verbatim>\<open>[]\<close>, \<^verbatim>\<open>null\<close>,
  \<^verbatim>\<open>[null]\<close>, \<^verbatim>\<open>[{}]\<close> and \<^verbatim>\<open>[[1,{}]]\<close> and on three small bundles. Elsewhere the
  tables hold a placeholder.
\<close>

definition sample_balance :: VirtualBalance where
  "sample_balance =
     \<lparr>cash = 99529.17, totalValue = 100000, initialBalance = 100000, lastUpdated = 3\<rparr>"

definition sample_trade :: Trade where
  "sample_trade =
     \<lparr>t_id = ''trade-uuid'', t_timestamp = 1, t_marketId = ''0xabc'',
      t_marketQuestion = ''Will it rain?'', t_tokenId = ''71'', t_outcome = ''YES'',
      t_side = BUY, t_shares = 1000, t_price = 0.4, t_totalCost = 400, t_fees = 0.4,
      t_realizedPnL = None\<rparr>"

definition sample_positions :: "Position js_map" where
  "sample_positions = [(''0xabc-YES'', sample_position 1000 0.4)]"

definition balance_text :: string where
  \<open>balance_text = ''{"cash":99529.17,"totalValue":100000,"initialBalance":100000,"lastUpdated":"1970-01-01T00:00:00.003Z"}''\<close>

definition positions_text :: string where
  \<open>positions_text = ''[["0xabc-YES",{"id":"position-uuid","marketId":"0xabc","marketQuestion":"Will it rain?","tokenId":"71","outcome":"YES","shares":1000,"avgPrice":0.4,"currentPrice":0.4,"unrealizedPnL":0,"openedAt":"1970-01-01T00:00:00.001Z"}]]''\<close>

definition trades_text :: string where
  \<open>trades_text = ''[{"id":"trade-uuid","timestamp":"1970-01-01T00:00:00.001Z","marketId":"0xabc","marketQuestion":"Will it rain?","tokenId":"71","outcome":"YES","side":"BUY","shares":1000,"price":0.4,"totalCost":400,"fees":0.4}]''\<close>

definition sample_toISOString :: "int \<Rightarrow> string" where
  "sample_toISOString t =
     (if t = 1 then ''1970-01-01T00:00:00.001Z''
      else if t = 3 then ''1970-01-01T00:00:00.003Z''
      else ''1970-01-01T00:00:00.000Z'')"

definition sample_new_Date :: "jsval \<Rightarrow> date option" where
  "sample_new_Date v =
     (if v = JStr ''1970-01-01T00:00:00.001Z'' then Some (Time 1)
      else if v = JStr ''1970-01-01T00:00:00.003Z'' then Some (Time 3)
      else if v = JNull then Some (Time 0)
      else Some Invalid_Date)"

definition sample_stringify :: "jsval \<Rightarrow> string" where
  "sample_stringify v =
     (if v = VirtualBalance_obj sample_balance then balance_text
      else if v = JArr (entries (positions_map sample_positions)) then positions_text
      else if v = JArr [Trade_obj sample_trade] then trades_text
      else ''null'')"

definition sample_parse :: "jsval \<Rightarrow> jsval option" where
  \<open>sample_parse d =
     (if d = JStr balance_text
        then Some (json_image sample_toISOString (VirtualBalance_obj sample_balance))
      else if d = JStr positions_text
        then Some (json_image sample_toISOString (JArr (entries (positions_map sample_positions))))
      else if d = JStr trades_text
        then Some (json_image sample_toISOString (JArr [Trade_obj sample_trade]))
      else if d = JStr ''{}'' then Some (JObj [])
      else if d = JStr ''{"balance":"{}"}'' then Some (JObj [(''balance'', JStr ''{}'')])
      else if d = JStr ''{"balance":"{"}'' then Some (JObj [(''balance'', JStr ''{'')])
      else if d = JStr ''[]'' then Some (JArr [])
      else if d = JStr ''{"balance":"{}","positions":"[]","trades":"[]"}''
        then Some (JObj [(''balance'', JStr ''{}''), (''positions'', JStr ''[]''),
                         (''trades'', JStr ''[]'')])
      else if d = JStr ''null'' then Some JNull
      else if d = JStr ''[null]'' then Some (JArr [JNull])
      else if d = JStr ''[{}]'' then Some (JArr [JObj []])
      else if d = JStr ''[[1,{}]]'' then Some (JArr [JArr [JNum 1, JObj []]])
      else None)\<close>

definition sample_builtins :: builtins where
  "sample_builtins =
     \<lparr>JSON_parse = sample_parse, JSON_stringify = sample_stringify,
      new_Date = sample_new_Date, toISOString = sample_toISOString\<rparr>"

text \<open>The same built-ins with a \<^verbatim>\<open>Date\<close> constructor that throws on every argument.\<close>

definition throwing_Date :: builtins where
  "throwing_Date = sample_builtins\<lparr>new_Date := \<lambda>v. None\<rparr>"

section \<open>Properties of the ledger\<close>

subsection \<open>The position map\<close>





lemma keys_Map_set: "fst ` set (Map_set m k v) = insert k (fst ` set m)"
proof (induction m)
  case Nil
  show ?case by simp
next
  case (Cons e m)
  obtain k' v' where e: "e = (k', v')" by (cases e)
  show ?case
  proof (cases "k' = k")
    case True
    then show ?thesis by (simp add: e)
  next
    case False
    then show ?thesis using Cons.IH by (simp add: e insert_commute)
  qed
qed

lemma distinct_Map_set: "distinct (map fst m) \<Longrightarrow> distinct (map fst (Map_set m k v))"
proof (induction m)
  case Nil
  then show ?case by simp
next
  case (Cons e m)
  obtain k' v' where e: "e = (k', v')" by (cases e)
  show ?case
  proof (cases "k' = k")
    case True
    with Cons.prems e show ?thesis by simp
  next
    case False
    have "k' \<notin> fst ` set (Map_set m k v)"
      using Cons.prems e False by (simp add: keys_Map_set)
    with Cons e False show ?thesis by simp
  qed
qed

lemma distinct_Map_delete: "distinct (map fst m) \<Longrightarrow> distinct (map fst (Map_delete m k))"
  by (simp add: Map_delete_def distinct_map_filter)

subsection \<open>Cash flow of one execution and of a run\<close>

lemma execute_cash:
  "cash (balance (snd (execute a order st))) =
     cash (balance st) + cash_flow order (fst (execute a order st))"
  by (cases "o_side order")
     (auto simp: execute_def executeBuy_def executeSell_def Let_def deductCash_def addCash_def
        cash_flow_def FEE_RATE_def canAfford_def
        split: prod.splits, (simp add: algebra_simps)+)

lemma execute_all_length:
  "execute_all orders st = (rs, st') \<Longrightarrow> length rs = length orders"
  by (induction orders arbitrary: st rs st') (auto split: prod.splits)

lemma execute_all_cash:
  "execute_all orders st = (rs, st') \<Longrightarrow>
   cash (balance st') =
     cash (balance st) + (\<Sum>(ao, r) \<leftarrow> zip orders rs. cash_flow (snd ao) r)"
proof (induction orders arbitrary: st rs st')
  case Nil
  then show ?case by simp
next
  case (Cons x orders)
  obtain a order where x: "x = (a, order)" by (cases x)
  obtain r st1 where e: "execute a order st = (r, st1)" by (cases "execute a order st")
  obtain rs1 st2 where ea: "execute_all orders st1 = (rs1, st2)"
    by (cases "execute_all orders st1")
  from Cons.prems x e ea have rs: "rs = r # rs1" and st': "st' = st2" by auto
  have "cash (balance st1) = cash (balance st) + cash_flow order r"
    using execute_cash [of a order st] e by simp
  moreover have "cash (balance st2) =
      cash (balance st1) + (\<Sum>(ao, r) \<leftarrow> zip orders rs1. cash_flow (snd ao) r)"
    using Cons.IH [OF ea] .
  ultimately show ?case by (simp add: rs st' x)
qed

lemma cash_flow_split:
  "length rs = length orders \<Longrightarrow>
   (\<Sum>(ao, r) \<leftarrow> zip orders rs. cash_flow (snd ao) r) =
     - (\<Sum>order \<leftarrow> filter (\<lambda>order. o_side order = BUY) (filled orders rs).
          o_shares order * o_price order * 1.001)
     + (\<Sum>order \<leftarrow> filter (\<lambda>order. o_side order = SELL) (filled orders rs).
          o_shares order * o_price order * 0.999)"
proof (induction orders arbitrary: rs)
  case Nil
  then show ?case by (simp add: filled_def)
next
  case (Cons x orders)
  then obtain r rs1 where rs: "rs = r # rs1" and len: "length rs1 = length orders"
    by (cases rs) auto
  have side: "o_side (snd x) = SELL \<longleftrightarrow> o_side (snd x) \<noteq> BUY"
    by (cases "o_side (snd x)") auto
  show ?case
    using Cons.IH [OF len] side
    by (cases x) (auto simp: rs filled_def cash_flow_def)
qed

text \<open>The executor keeps the keys of the position map distinct.\<close>

lemma addPosition_distinct_keys:
  "distinct (map fst ps) \<Longrightarrow> distinct (map fst (snd (addPosition uuid now order s p ps)))"
  by (simp add: addPosition_def Let_def distinct_Map_set split: option.splits)

lemma reducePosition_distinct_keys:
  "distinct (map fst ps) \<Longrightarrow>
   distinct (map fst (snd (reducePosition marketId outcome s p ps)))"
  by (simp add: reducePosition_def Let_def distinct_Map_set distinct_Map_delete
        split: option.splits)

lemma execute_distinct_keys:
  assumes "distinct (map fst (positions st))"
  shows "distinct (map fst (positions (snd (execute a order st))))"
proof (cases "o_side order")
  case BUY
  then show ?thesis
    using assms addPosition_distinct_keys [OF assms]
    by (simp add: execute_def executeBuy_def Let_def)
next
  case SELL
  then show ?thesis
    using assms reducePosition_distinct_keys [OF assms]
    by (simp add: execute_def executeSell_def Let_def case_prod_beta)
qed

lemma execute_all_distinct_keys:
  "distinct (map fst (positions st)) \<Longrightarrow>
   distinct (map fst (positions (snd (execute_all orders st))))"
proof (induction orders arbitrary: st)
  case Nil
  then show ?case by simp
next
  case (Cons x orders)
  obtain a order where x: "x = (a, order)" by (cases x)
  have "distinct (map fst (positions (snd (execute a order st))))"
    using Cons.prems by (rule execute_distinct_keys)
  from Cons.IH [OF this] show ?case
    by (simp add: x case_prod_beta)
qed

subsection \<open>Rounding to the nearest double\<close>

lemma round_even_of_int: "round_even (of_int n) = n"
  by (simp add: round_even_def)

lemma round_even_bounds: "\<lfloor>r\<rfloor> \<le> round_even r \<and> round_even r \<le> \<lfloor>r\<rfloor> + 1"
  by (simp add: round_even_def Let_def)

lemma round_even_mono:
  assumes "r \<le> s"
  shows "round_even r \<le> round_even s"
proof (cases "\<lfloor>r\<rfloor> = \<lfloor>s\<rfloor>")
  case True
  then show ?thesis
    using assms by (auto simp: round_even_def Let_def)
next
  case False
  then have "\<lfloor>r\<rfloor> < \<lfloor>s\<rfloor>"
    using assms floor_mono [of r s] by linarith
  then show ?thesis
    using round_even_bounds [of r] round_even_bounds [of s] by linarith
qed

lemma ulp_pos: "0 < (2::real) powi k"
  by (rule zero_less_power_int) simp

lemma powr_powi: "(2::real) powr real_of_int k = 2 powi k"
  by (rule powr_real_of_int') simp_all

lemma floor_log2:
  assumes "0 < x"
  shows "2 powi \<lfloor>log 2 x\<rfloor> \<le> x" and "x < 2 powi (\<lfloor>log 2 x\<rfloor> + 1)"
proof -
  have "2 powr real_of_int \<lfloor>log 2 x\<rfloor> \<le> x \<and> x < 2 powr real_of_int (\<lfloor>log 2 x\<rfloor> + 1)"
    using floor_log_eq_powr_iff [of x 2 "\<lfloor>log 2 x\<rfloor>"] assms by simp
  then show "2 powi \<lfloor>log 2 x\<rfloor> \<le> x" and "x < 2 powi (\<lfloor>log 2 x\<rfloor> + 1)"
    unfolding powr_powi by simp_all
qed

lemma floor_log2_eq:
  assumes "2 powi e \<le> x" and "x < 2 powi (e + 1)"
  shows "\<lfloor>log 2 x\<rfloor> = e"
proof -
  have "0 < x" using assms(1) ulp_pos [of e] by linarith
  moreover have "2 powr real_of_int e \<le> x \<and> x < 2 powr real_of_int (e + 1)"
    unfolding powr_powi using assms by simp
  ultimately show ?thesis
    using floor_log_eq_powr_iff [of x 2 e] by simp
qed

lemma binade_upper: "0 < x \<Longrightarrow> x < 2 powi (binade x + 1)"
proof -
  assume x: "0 < x"
  have "\<lfloor>log 2 x\<rfloor> + 1 \<le> binade x + 1" using x by (simp add: binade_def)
  then have "(2::real) powi (\<lfloor>log 2 x\<rfloor> + 1) \<le> 2 powi (binade x + 1)"
    by (intro power_int_increasing) simp_all
  with floor_log2(2) [OF x] show ?thesis by linarith
qed

lemma binade_lower: "0 < x \<Longrightarrow> - 1022 < binade x \<Longrightarrow> 2 powi binade x \<le> x"
  using floor_log2(1) [of x] by (simp add: binade_def max_def split: if_splits)

lemma binade_mono: "0 < x \<Longrightarrow> x \<le> y \<Longrightarrow> binade x \<le> binade y"
  unfolding binade_def
  using log_mono [of 2 x y] floor_mono [of "log 2 x" "log 2 y"] by simp

lemma binade_eq:
  assumes "2 powi e \<le> \<bar>x\<bar>" and "\<bar>x\<bar> < 2 powi (e + 1)"
  shows "binade x = max e (- 1022)"
  using floor_log2_eq [OF assms] by (simp add: binade_def)

lemma double_eval:
  assumes "2 powi e \<le> \<bar>x\<bar>" and "\<bar>x\<bar> < 2 powi (e + 1)"
  shows "double x =
           of_int (round_even (x / 2 powi (max e (- 1022) - 52))) * 2 powi (max e (- 1022) - 52)"
proof -
  have "0 < \<bar>x\<bar>" using assms(1) ulp_pos [of e] by linarith
  then have "x \<noteq> 0" by simp
  then show ?thesis by (simp add: double_def binade_eq [OF assms])
qed

lemma double_nonneg: "0 \<le> x \<Longrightarrow> 0 \<le> double x"
proof -
  assume "0 \<le> x"
  then have "0 \<le> x / 2 powi (binade x - 52)"
    using ulp_pos [of "binade x - 52"] by simp
  then have "0 \<le> round_even (x / 2 powi (binade x - 52))"
    using round_even_mono [of 0 "x / 2 powi (binade x - 52)"] round_even_of_int [of 0] by simp
  then show ?thesis
    using ulp_pos [of "binade x - 52"] by (simp add: double_def)
qed

lemma double_upper:
  assumes "0 < x"
  shows "double x \<le> 2 powi (binade x + 1)"
proof -
  let ?u = "(2::real) powi (binade x - 52)"
  have split: "(2::real) powi (binade x + 1) = 2 powi 53 * ?u"
    using power_int_add [of "2::real" 53 "binade x - 52"] by (simp add: add.commute)
  have "x / ?u \<le> 2 powi 53"
    using binade_upper [OF assms] ulp_pos [of "binade x - 52"]
    by (simp add: split pos_divide_le_eq less_imp_le)
  then have "round_even (x / ?u) \<le> round_even (of_int (2 ^ 53))"
    by (intro round_even_mono) simp
  then have "real_of_int (round_even (x / ?u)) \<le> 2 powi 53"
    by (simp only: round_even_of_int) simp
  then have "real_of_int (round_even (x / ?u)) * ?u \<le> 2 powi 53 * ?u"
    using ulp_pos [of "binade x - 52"] by (simp add: mult_right_mono)
  then show ?thesis using assms by (simp add: double_def split)
qed

lemma double_lower:
  assumes "0 < x" and "2 powi binade x \<le> x"
  shows "2 powi binade x \<le> double x"
proof -
  let ?u = "(2::real) powi (binade x - 52)"
  have split: "(2::real) powi binade x = 2 powi 52 * ?u"
    using power_int_add [of "2::real" 52 "binade x - 52"] by simp
  have "2 powi 52 \<le> x / ?u"
    using assms(2) ulp_pos [of "binade x - 52"]
    by (simp add: split pos_le_divide_eq)
  then have "round_even (of_int (2 ^ 52)) \<le> round_even (x / ?u)"
    by (intro round_even_mono) simp
  then have "2 powi 52 \<le> real_of_int (round_even (x / ?u))"
    by (simp only: round_even_of_int) simp
  then have "2 powi 52 * ?u \<le> real_of_int (round_even (x / ?u)) * ?u"
    using ulp_pos [of "binade x - 52"] by (simp add: mult_right_mono)
  then show ?thesis using assms by (simp add: double_def split)
qed

lemma double_mono:
  assumes "0 \<le> x" and "x \<le> y"
  shows "double x \<le> double y"
proof (cases "x = 0")
  case True
  then show ?thesis using assms double_nonneg [of y] by (simp add: double_def)
next
  case False
  then have x: "0 < x" and y: "0 < y" using assms by simp_all
  have le: "binade x \<le> binade y" using x assms(2) by (rule binade_mono)
  show ?thesis
  proof (cases "binade x = binade y")
    case True
    let ?u = "(2::real) powi (binade y - 52)"
    have "x / ?u \<le> y / ?u"
      using assms(2) ulp_pos [of "binade y - 52"] by (simp add: divide_right_mono)
    then have "round_even (x / ?u) \<le> round_even (y / ?u)" by (rule round_even_mono)
    then have "real_of_int (round_even (x / ?u)) * ?u \<le> real_of_int (round_even (y / ?u)) * ?u"
      using ulp_pos [of "binade y - 52"] by (simp add: mult_right_mono)
    then show ?thesis using x y True by (simp add: double_def)
  next
    case False
    with le have lt: "binade x + 1 \<le> binade y" by simp
    have "- 1022 \<le> binade x" by (simp add: binade_def)
    with lt have "- 1022 < binade y" by simp
    then have "2 powi binade y \<le> y" using y binade_lower by simp
    then have "2 powi binade y \<le> double y" using y double_lower by simp
    moreover have "(2::real) powi (binade x + 1) \<le> 2 powi binade y"
      using lt by (intro power_int_increasing) simp_all
    ultimately show ?thesis using double_upper [OF x] by linarith
  qed
qed

lemma powi_split: "(2::real) powi k = 2 powi m * 2 powi (k - m)"
  using power_int_add [of "2::real" m "k - m"] by simp

lemma double_idem:
  assumes "0 \<le> x"
  shows "double (double x) = double x"
proof (cases "double x = 0")
  case True
  then show ?thesis by (simp add: double_def)
next
  case False
  then have x: "0 < x" using assms by (cases "x = 0") (simp_all add: double_def)
  let ?k = "binade x"
  let ?u = "(2::real) powi (?k - 52)"
  let ?n = "round_even (x / ?u)"
  have d: "double x = of_int ?n * ?u" using x by (simp add: double_def)
  have dpos: "0 < double x" using False double_nonneg [OF assms] by linarith
  have up: "double x \<le> 2 powi (?k + 1)" using x by (rule double_upper)
  show ?thesis
  proof (cases "double x = 2 powi (?k + 1)")
    case True
    have "\<lfloor>log 2 (double x)\<rfloor> = ?k + 1"
    proof (rule floor_log2_eq)
      show "2 powi (?k + 1) \<le> double x" using True by simp
      have "(2::real) powi (?k + 1) < 2 powi (?k + 1 + 1)"
        by (intro power_int_strict_increasing) simp_all
      then show "double x < 2 powi (?k + 1 + 1)" using True by simp
    qed
    moreover have "- 1022 \<le> ?k" by (simp add: binade_def)
    ultimately have b: "binade (double x) = ?k + 1"
      using dpos by (simp add: binade_def)
    have "(2::real) powi (?k + 1) = 2 powi 52 * 2 powi (?k + 1 - 52)"
      by (rule powi_split)
    then have "double x / 2 powi (?k + 1 - 52) = of_int (2 ^ 52)"
      using True ulp_pos [of "?k + 1 - 52"] by simp
    then have "round_even (double x / 2 powi (?k + 1 - 52)) = 2 ^ 52"
      by (simp only: round_even_of_int)
    then have "double (double x) = 2 powi 52 * 2 powi (?k + 1 - 52)"
      using False b by (simp add: double_def)
    also have "\<dots> = 2 powi (?k + 1)"
      by (rule powi_split [symmetric])
    finally show ?thesis using True by simp
  next
    case False
    with up have lt: "double x < 2 powi (?k + 1)" by simp
    have b: "binade (double x) = ?k"
    proof (cases "- 1022 < ?k")
      case True
      then have "2 powi ?k \<le> x" using x binade_lower by simp
      then have "2 powi ?k \<le> double x" using x double_lower by simp
      then have "\<lfloor>log 2 (double x)\<rfloor> = ?k" using lt by (rule floor_log2_eq)
      then show ?thesis using dpos True by (simp add: binade_def)
    next
      case False
      have "- 1022 \<le> ?k" by (simp add: binade_def)
      with False have k: "?k = - 1022" by simp
      have "\<lfloor>log 2 (double x)\<rfloor> < ?k + 1"
      proof (rule ccontr)
        assume "\<not> \<lfloor>log 2 (double x)\<rfloor> < ?k + 1"
        then have "?k + 1 \<le> \<lfloor>log 2 (double x)\<rfloor>" by simp
        then have "(2::real) powi (?k + 1) \<le> 2 powi \<lfloor>log 2 (double x)\<rfloor>"
          by (intro power_int_increasing) simp_all
        with floor_log2(1) [OF dpos] lt show False by linarith
      qed
      then show ?thesis using dpos k by (simp add: binade_def)
    qed
    have "double x / ?u = of_int ?n"
      using d ulp_pos [of "?k - 52"] by simp
    then have "round_even (double x / ?u) = ?n"
      by (simp only: round_even_of_int)
    then show ?thesis
      using \<open>double x \<noteq> 0\<close> b d by (simp add: double_def)
  qed
qed

lemma double_zero: "double 0 = 0"
  by (simp add: double_def)

lemma double_one: "double 1 = 1"
proof -
  have "double 1 = of_int (round_even (1 / 2 powi (max 0 (- 1022) - 52))) * 2 powi (max 0 (- 1022) - 52)"
    by (rule double_eval) simp_all
  also have "(1::real) / 2 powi (max 0 (- 1022) - 52) = of_int (2 ^ 52)"
    by (simp add: power_int_minus field_simps)
  finally show ?thesis
    by (simp only: round_even_of_int) (simp add: power_int_minus)
qed

lemma double_at:
  assumes "2 powi e \<le> \<bar>x\<bar>" and "\<bar>x\<bar> < 2 powi (e + 1)" and "- 1022 \<le> e"
    and "of_int n = y / 2 powi (e - 52)"
    and "round_even (x / 2 powi (e - 52)) = n"
  shows "double x = y"
proof -
  have "max e (- 1022) = e" using assms(3) by simp
  then have "double x = of_int n * 2 powi (e - 52)"
    using double_eval [OF assms(1,2)] assms(5) by simp
  also have "\<dots> = y" using assms(4) ulp_pos [of "e - 52"] by simp
  finally show ?thesis .
qed

text \<open>The roundings that the two sample buys go through.\<close>

lemma double_step_1: "double (1 / 1000) = 1152921504606847 / 1152921504606846976"
  by (rule double_at [where e = "- 10" and n = 4611686018427388];
      simp add: power_int_minus round_even_def Let_def)

lemma double_step_2: "double (21 / 8) = 21 / 8"
  by (rule double_at [where e = 1 and n = 5910974510923776];
      simp add: power_int_minus round_even_def Let_def)

lemma double_step_3: "double (24211351596743787 / 9223372036854775808) = 6052837899185947 / 2305843009213693952"
  by (rule double_at [where e = "- 9" and n = 6052837899185947];
      simp add: power_int_minus round_even_def Let_def)

lemma double_step_4: "double (6058890737085132571 / 2305843009213693952) = 1479221371358675 / 562949953421312"
  by (rule double_at [where e = 1 and n = 5916885485434700];
      simp add: power_int_minus round_even_def Let_def)

lemma double_step_5: "double (54815773970772525 / 562949953421312) = 3425985873173283 / 35184372088832"
  by (rule double_at [where e = 6 and n = 6851971746346566];
      simp add: power_int_minus round_even_def Let_def)

lemma double_step_6: "double (1 / 4) = 1 / 4"
  by (rule double_at [where e = "- 2" and n = 4503599627370496];
      simp add: power_int_minus round_even_def Let_def)

lemma double_step_7: "double (1152921504606847 / 4611686018427387904) = 1152921504606847 / 4611686018427387904"
  by (rule double_at [where e = "- 12" and n = 4611686018427388];
      simp add: power_int_minus round_even_def Let_def)

lemma double_step_8: "double (1154074426111453823 / 4611686018427387904) = 2254051613498933 / 9007199254740992"
  by (rule double_at [where e = "- 2" and n = 4508103226997866];
      simp add: power_int_minus round_even_def Let_def)

lemma double_step_9: "double (874798331918861515 / 9007199254740992) = 3417180984058053 / 35184372088832"
  by (rule double_at [where e = 6 and n = 6834361968116106];
      simp add: power_int_minus round_even_def Let_def)

subsection \<open>Cash flow in double arithmetic\<close>

lemma exact_parts:
  "FEE_RATE_fl (\<lambda>x. x) = FEE_RATE"
  "deductCash_fl (\<lambda>x. x) = deductCash"
  "addCash_fl (\<lambda>x. x) = addCash"
  "addPosition_fl (\<lambda>x. x) = addPosition"
  "reducePosition_fl (\<lambda>x. x) = reducePosition"
  by (simp_all add: fun_eq_iff FEE_RATE_fl_def FEE_RATE_def deductCash_fl_def deductCash_def
        addCash_fl_def addCash_def addPosition_fl_def addPosition_def
        reducePosition_fl_def reducePosition_def)

lemma execute_fl_exact: "execute_fl (\<lambda>x. x) a order st = execute a order st"
  by (simp only: execute_fl_def execute_def executeBuy_fl_def executeBuy_def
        executeSell_fl_def executeSell_def exact_parts)

lemma execute_all_fl_exact: "execute_all_fl (\<lambda>x. x) orders st = execute_all orders st"
  by (induction orders arbitrary: st) (auto simp: execute_fl_exact)

lemma execute_fl_cash:
  "cash (balance (snd (execute_fl rnd a order st))) =
     (if success (fst (execute_fl rnd a order st)) then cash_step rnd (cash (balance st)) order
      else cash (balance st))"
  by (cases "o_side order")
     (auto simp: execute_fl_def executeBuy_fl_def executeSell_fl_def Let_def deductCash_fl_def
        addCash_fl_def cash_step_def totalWithFees_fl_def netProceeds_fl_def
        split: prod.splits)

lemma execute_all_fl_length:
  "execute_all_fl rnd orders st = (rs, st') \<Longrightarrow> length rs = length orders"
  by (induction orders arbitrary: st rs st') (auto split: prod.splits)

lemma execute_all_fl_cash:
  "execute_all_fl rnd orders st = (rs, st') \<Longrightarrow>
   cash (balance st') = foldl (cash_step rnd) (cash (balance st)) (filled orders rs)"
proof (induction orders arbitrary: st rs st')
  case Nil
  then show ?case by (simp add: filled_def)
next
  case (Cons x orders)
  obtain a order where x: "x = (a, order)" by (cases x)
  obtain r st1 where e: "execute_fl rnd a order st = (r, st1)"
    by (cases "execute_fl rnd a order st")
  obtain rs1 st2 where ea: "execute_all_fl rnd orders st1 = (rs1, st2)"
    by (cases "execute_all_fl rnd orders st1")
  from Cons.prems x e ea have rs: "rs = r # rs1" and st': "st' = st2" by auto
  have c1: "cash (balance st1) =
              (if success r then cash_step rnd (cash (balance st)) order else cash (balance st))"
    using execute_fl_cash [of rnd a order st] e by simp
  have "cash (balance st2) = foldl (cash_step rnd) (cash (balance st1)) (filled orders rs1)"
    using Cons.IH [OF ea] .
  then show ?case
    by (simp add: rs st' x c1 filled_def)
qed

lemma fee_bounds: "0 \<le> FEE_RATE_fl double \<and> FEE_RATE_fl double \<le> 1"
  using double_nonneg [of "0.001"] double_mono [of "0.001" 1]
  by (simp add: FEE_RATE_fl_def double_one)

lemma netProceeds_fl_nonneg:
  assumes "0 \<le> o_shares order" and "0 \<le> o_price order"
  shows "0 \<le> netProceeds_fl double order"
proof -
  let ?tp = "double (o_shares order * o_price order)"
  have sp: "0 \<le> o_shares order * o_price order" using assms by simp
  then have tp: "0 \<le> ?tp" by (rule double_nonneg)
  have "?tp * FEE_RATE_fl double \<le> ?tp * 1"
    using tp fee_bounds by (intro mult_left_mono) simp_all
  moreover have "0 \<le> ?tp * FEE_RATE_fl double" using tp fee_bounds by simp
  ultimately have "double (?tp * FEE_RATE_fl double) \<le> double ?tp"
    using double_mono [of "?tp * FEE_RATE_fl double" ?tp] by simp
  also have "double ?tp = ?tp" using sp by (rule double_idem)
  finally have "0 \<le> ?tp - double (?tp * FEE_RATE_fl double)" by simp
  then show ?thesis
    by (simp add: netProceeds_fl_def Let_def double_nonneg)
qed

lemma execute_fl_nonneg:
  assumes "0 \<le> cash (balance st)" and "0 \<le> o_shares order" and "0 \<le> o_price order"
  shows "0 \<le> cash (balance (snd (execute_fl double a order st)))"
proof (cases "success (fst (execute_fl double a order st))")
  case False
  then show ?thesis using assms(1) by (simp add: execute_fl_cash)
next
  case True
  show ?thesis
  proof (cases "o_side order")
    case BUY
    with True have "totalWithFees_fl double order \<le> cash (balance st)"
      by (simp add: execute_fl_def executeBuy_fl_def Let_def canAfford_def totalWithFees_fl_def
            split: if_splits)
    then have "0 \<le> double (cash (balance st) - totalWithFees_fl double order)"
      by (intro double_nonneg) simp
    with True BUY show ?thesis by (simp add: execute_fl_cash cash_step_def)
  next
    case SELL
    have "0 \<le> double (cash (balance st) + netProceeds_fl double order)"
      using assms(1) netProceeds_fl_nonneg [OF assms(2,3)] by (intro double_nonneg) simp
    with True SELL show ?thesis by (simp add: execute_fl_cash cash_step_def)
  qed
qed

lemma execute_all_fl_nonneg:
  "execute_all_fl double orders st = (rs, st') \<Longrightarrow> 0 \<le> cash (balance st) \<Longrightarrow>
   \<forall>(a, order) \<in> set orders. 0 \<le> o_shares order \<and> 0 \<le> o_price order \<Longrightarrow>
   0 \<le> cash (balance st')"
proof (induction orders arbitrary: st rs st')
  case Nil
  then show ?case by simp
next
  case (Cons x orders)
  obtain a order where x: "x = (a, order)" by (cases x)
  obtain r st1 where e: "execute_fl double a order st = (r, st1)"
    by (cases "execute_fl double a order st")
  obtain rs1 st2 where ea: "execute_all_fl double orders st1 = (rs1, st2)"
    by (cases "execute_all_fl double orders st1")
  from Cons.prems x e ea have st': "st' = st2" by auto
  have "0 \<le> cash (balance st1)"
    using execute_fl_nonneg [of st order a] Cons.prems e x by simp
  then show ?case
    using Cons.IH [OF ea] Cons.prems(3) st' by simp
qed

lemma two_buys_run:
  "execute_all_fl double two_buys (new_ledger 0 100) = (rs, st') \<Longrightarrow>
   map success rs = [True, True]
   \<and> filled two_buys rs = [sample_order BUY 3 0.875, sample_order BUY 1 0.25]
   \<and> cash (balance st') = 3417180984058053 / 35184372088832"
  by (auto simp: two_buys_def new_ledger_def sample_ambient_def sample_order_def filled_def
        execute_fl_def executeBuy_fl_def Let_def canAfford_def deductCash_fl_def
        FEE_RATE_fl_def getCash_def
        double_step_1 double_step_2 double_step_3 double_step_4 double_step_5 double_step_6 double_step_7 double_step_8 double_step_9)

text \<open>
  C1 (conservation of cash), as the code has it. The code computes in IEEE doubles,
  so every operation rounds. For every run of the executor, whatever the orders, the
  final cash is the starting cash from which the cost with fees of each buy that
  succeeded has been subtracted and to which the net proceeds of each sell that
  succeeded have been added, in the order of execution and with every operation
  rounded to the nearest double, where the cost with fees is
  \<open>shares \<times> price + shares \<times> price \<times> 0.001\<close> and the net proceeds are
  \<open>shares \<times> price - shares \<times> price \<times> 0.001\<close>, rounded at each step as well.
  With exact arithmetic in place of the rounding, this is the starting cash minus
  \<open>shares \<times> price \<times> 1.001\<close> for each buy that succeeded plus
  \<open>shares \<times> price \<times> 0.999\<close> for each sell that succeeded. If the starting cash is
  not negative and no order has a negative share count or price, the cash after the
  run in doubles is not negative; a run being any sequence of orders, this covers
  every reachable state. The rounding of the model does not overflow: the statement
  describes the runs of the code whose starting cash, share counts and prices are
  finite doubles and in which no result exceeds the largest double.
\<close>

theorem cash_conservation:
  "cash (balance (snd (execute_all_fl double orders st))) =
     foldl (\<lambda>c order. if o_side order = BUY
                        then double (c - totalWithFees_fl double order)
                        else double (c + netProceeds_fl double order))
       (cash (balance st))
       (filled orders (fst (execute_all_fl double orders st)))
   \<and> cash (balance (snd (execute_all_fl (\<lambda>x. x) orders st))) =
       cash (balance st)
       - (\<Sum>order \<leftarrow> filter (\<lambda>order. o_side order = BUY)
                        (filled orders (fst (execute_all_fl (\<lambda>x. x) orders st))).
            o_shares order * o_price order * 1.001)
       + (\<Sum>order \<leftarrow> filter (\<lambda>order. o_side order = SELL)
                        (filled orders (fst (execute_all_fl (\<lambda>x. x) orders st))).
            o_shares order * o_price order * 0.999)
   \<and> (0 \<le> cash (balance st)
        \<and> (\<forall>(a, order) \<in> set orders. 0 \<le> o_shares order \<and> 0 \<le> o_price order)
      \<longrightarrow> 0 \<le> cash (balance (snd (execute_all_fl double orders st))))"
proof (intro conjI impI)
  obtain rs st' where run: "execute_all_fl double orders st = (rs, st')"
    by (cases "execute_all_fl double orders st")
  have step: "cash_step double =
      (\<lambda>c order. if o_side order = BUY
                  then double (c - totalWithFees_fl double order)
                  else double (c + netProceeds_fl double order))"
    by (simp add: fun_eq_iff cash_step_def)
  show "cash (balance (snd (execute_all_fl double orders st))) =
     foldl (\<lambda>c order. if o_side order = BUY
                        then double (c - totalWithFees_fl double order)
                        else double (c + netProceeds_fl double order))
       (cash (balance st))
       (filled orders (fst (execute_all_fl double orders st)))"
    using execute_all_fl_cash [OF run] by (simp add: run step)
  show "0 \<le> cash (balance (snd (execute_all_fl double orders st)))"
    if "0 \<le> cash (balance st)
        \<and> (\<forall>(a, order) \<in> set orders. 0 \<le> o_shares order \<and> 0 \<le> o_price order)"
    using execute_all_fl_nonneg [OF run] that by (simp add: run)
next
  obtain rs st' where run: "execute_all orders st = (rs, st')"
    by (cases "execute_all orders st")
  have len: "length rs = length orders" using run by (rule execute_all_length)
  show "cash (balance (snd (execute_all_fl (\<lambda>x. x) orders st))) =
       cash (balance st)
       - (\<Sum>order \<leftarrow> filter (\<lambda>order. o_side order = BUY)
                        (filled orders (fst (execute_all_fl (\<lambda>x. x) orders st))).
            o_shares order * o_price order * 1.001)
       + (\<Sum>order \<leftarrow> filter (\<lambda>order. o_side order = SELL)
                        (filled orders (fst (execute_all_fl (\<lambda>x. x) orders st))).
            o_shares order * o_price order * 0.999)"
    using execute_all_cash [OF run] cash_flow_split [OF len]
    by (simp add: execute_all_fl_exact run)
qed

theorem cash_conservation_witness:
  "0 \<le> cash (balance (new_ledger 0 100))
   \<and> list_all (\<lambda>(a, order). 0 \<le> o_shares order \<and> 0 \<le> o_price order) two_buys
   \<and> cash (balance (snd (execute_all_fl double two_buys (new_ledger 0 100))))
       = 3417180984058053 / 35184372088832
   \<and> 0 \<le> cash (balance (snd (execute_all_fl double two_buys (new_ledger 0 100))))"
proof -
  obtain rs st' where run: "execute_all_fl double two_buys (new_ledger 0 100) = (rs, st')"
    by (cases "execute_all_fl double two_buys (new_ledger 0 100)")
  have h1: "0 \<le> cash (balance (new_ledger 0 100))"
    by (simp add: new_ledger_def)
  have h2: "\<forall>(a, order) \<in> set two_buys. 0 \<le> o_shares order \<and> 0 \<le> o_price order"
    by (simp add: two_buys_def sample_order_def)
  have "0 \<le> cash (balance (snd (execute_all_fl double two_buys (new_ledger 0 100))))"
    using cash_conservation [of two_buys "new_ledger 0 100"] h1 h2 by blast
  then show ?thesis
    using h1 h2 two_buys_run [OF run] by (simp add: run list_all_iff)
qed

text \<open>
  The final cash is not the exact sum. From a cash of 100, a buy of 3 shares at 0.875
  and a buy of 1 share at 0.25 both succeed; every input is a double. The exact
  formula gives \<open>100 - 2.625 \<times> 1.001 - 0.25 \<times> 1.001 = 97.122125\<close>; the code is left
  with the double \<open>3417180984058053 / 2\<^sup>4\<^sup>5\<close>, which prints as 97.12212500000001.
\<close>

theorem cash_conservation_counterexample:
  "map success (fst (execute_all_fl double two_buys (new_ledger 0 100))) = [True, True]
   \<and> cash (balance (snd (execute_all_fl double two_buys (new_ledger 0 100))))
       = 3417180984058053 / 2 ^ 45
   \<and> cash (balance (new_ledger 0 100))
       - (\<Sum>order \<leftarrow> filter (\<lambda>order. o_side order = BUY)
            (filled two_buys (fst (execute_all_fl double two_buys (new_ledger 0 100)))).
            o_shares order * o_price order * 1.001)
       + (\<Sum>order \<leftarrow> filter (\<lambda>order. o_side order = SELL)
            (filled two_buys (fst (execute_all_fl double two_buys (new_ledger 0 100)))).
            o_shares order * o_price order * 0.999)
       = 97.122125
   \<and> cash (balance (snd (execute_all_fl double two_buys (new_ledger 0 100))))
       \<noteq> cash (balance (new_ledger 0 100))
       - (\<Sum>order \<leftarrow> filter (\<lambda>order. o_side order = BUY)
            (filled two_buys (fst (execute_all_fl double two_buys (new_ledger 0 100)))).
            o_shares order * o_price order * 1.001)
       + (\<Sum>order \<leftarrow> filter (\<lambda>order. o_side order = SELL)
            (filled two_buys (fst (execute_all_fl double two_buys (new_ledger 0 100)))).
            o_shares order * o_price order * 0.999)"
proof -
  obtain rs st' where run: "execute_all_fl double two_buys (new_ledger 0 100) = (rs, st')"
    by (cases "execute_all_fl double two_buys (new_ledger 0 100)")
  have s: "map success rs = [True, True]"
    and f: "filled two_buys rs = map snd two_buys"
    and c: "cash (balance st') = 3417180984058053 / 35184372088832"
    using two_buys_run [OF run] by (simp_all add: two_buys_def)
  have e: "cash (balance (new_ledger 0 100))
       - (\<Sum>order \<leftarrow> filter (\<lambda>order. o_side order = BUY) (map snd two_buys).
            o_shares order * o_price order * 1.001)
       + (\<Sum>order \<leftarrow> filter (\<lambda>order. o_side order = SELL) (map snd two_buys).
            o_shares order * o_price order * 0.999)
       = (97.122125 :: real)"
    by (simp add: two_buys_def new_ledger_def sample_order_def)
  have n: "(3417180984058053 / 2 ^ 45 :: real) \<noteq> 97.122125"
    by simp
  have p: "(3417180984058053 / 35184372088832 :: real) = 3417180984058053 / 2 ^ 45"
    by simp
  show ?thesis
    unfolding run fst_conv snd_conv f e c p s using n by simp
qed

subsection \<open>Rejected orders\<close>



subsection \<open>Cost basis\<close>










section \<open>Properties of the risk gate\<close>








section \<open>Properties of the value strategy\<close>

text \<open>
  C9 (value strategy), as the code has it. For a market with \<open>|yesPrice - 0.5| < 0.15\<close>
  the value strategy returns \<open>BUY_YES\<close> when \<open>yesPrice < 0.5\<close> and \<open>BUY_NO\<close> otherwise,
  with confidence 0.55; this is the strictly cheaper side whenever the two quotes are
  complementary (\<open>noPrice = 1 - yesPrice\<close>) and not both 0.5. Outside the band it
  returns \<open>HOLD\<close>, with confidence 0.3. The NO price is never read.
\<close>

theorem value_strategy_signal:
  fixes m :: EnrichedMarket and rnd :: real
  defines "r \<equiv> analyze rnd m value_strategy"
  shows "(\<bar>yesPrice m - 0.5\<bar> < 0.15 \<longrightarrow>
            a_signal r = (if yesPrice m < 0.5 then BUY_YES else BUY_NO)
          \<and> a_confidence r = 0.55
          \<and> (noPrice m = 1 - yesPrice m \<and> yesPrice m \<noteq> 0.5 \<longrightarrow>
               (a_signal r = BUY_YES \<and> yesPrice m < noPrice m)
             \<or> (a_signal r = BUY_NO \<and> noPrice m < yesPrice m)))
       \<and> (\<not> \<bar>yesPrice m - 0.5\<bar> < 0.15 \<longrightarrow> a_signal r = HOLD \<and> a_confidence r = 0.3)"
  unfolding r_def
  by (auto simp: analyze_def analyzeValue_def Let_def)

theorem value_strategy_signal_witness:
  "\<bar>yesPrice (sample_market 0.45 0.55) - 0.5\<bar> < 0.15
   \<and> noPrice (sample_market 0.45 0.55) = 1 - yesPrice (sample_market 0.45 0.55)
   \<and> a_signal (analyze 0 (sample_market 0.45 0.55) value_strategy) = BUY_YES
   \<and> a_confidence (analyze 0 (sample_market 0.45 0.55) value_strategy) = 0.55
   \<and> \<not> \<bar>yesPrice (sample_market 0.8 0.2) - 0.5\<bar> < 0.15
   \<and> a_signal (analyze 0 (sample_market 0.8 0.2) value_strategy) = HOLD
   \<and> a_confidence (analyze 0 (sample_market 0.8 0.2) value_strategy) = 0.3"
  using value_strategy_signal [where m = "sample_market 0.45 0.55" and rnd = 0]
        value_strategy_signal [where m = "sample_market 0.8 0.2" and rnd = 0]
  by (simp add: sample_market_def)

text \<open>
  The signal is not always for the side with the lower quote: a market quoted at 0.5
  for YES and 1 for NO (what the market client makes of the prices 0 and 1, a zero
  price being replaced by 0.5) is in the band, and the strategy buys NO, the dearer
  side.
\<close>

theorem value_strategy_signal_counterexample:
  "\<bar>yesPrice (sample_market 0.5 1) - 0.5\<bar> < 0.15
   \<and> a_signal (analyze 0 (sample_market 0.5 1) value_strategy) = BUY_NO
   \<and> yesPrice (sample_market 0.5 1) < noPrice (sample_market 0.5 1)"
  by (simp add: analyze_def analyzeValue_def sample_market_def)

section \<open>Properties of serialization and restore\<close>

lemma catch_returns: "\<exists>s. catch body = Returns s"
  by (cases body) (simp_all add: catch_def)

lemma balance_roundtrip:
  assumes "round_trips B (VirtualBalance_obj b)" and "revives B (lastUpdated b)"
  shows "BalanceManager_restore B (JStr (BalanceManager_serialize B (VirtualBalance_obj b))) old
           = Returns (VirtualBalance_obj b)"
  using assms
  by (simp add: BalanceManager_restore_def BalanceManager_serialize_def round_trips_def
        revives_def VirtualBalance_obj_def catch_def)

lemma JMap_set_fresh:
  "\<forall>(k', v') \<in> set m. k' \<noteq> k \<Longrightarrow> JMap_set m k v = m @ [(k, v)]"
  by (induction m) (auto simp: same_key_def)

lemma new_Map_distinct_aux:
  "distinct (map fst (acc @ xs)) \<Longrightarrow> foldl (\<lambda>m (k, v). JMap_set m k v) acc xs = acc @ xs"
proof (induction xs arbitrary: acc)
  case Nil
  then show ?case by simp
next
  case (Cons x xs)
  obtain k v where x: "x = (k, v)" by (cases x)
  have fresh: "\<forall>(k', v') \<in> set acc. k' \<noteq> k"
    using Cons.prems x by (force simp: image_iff)
  have "distinct (map fst ((acc @ [(k, v)]) @ xs))"
    using Cons.prems x by simp
  from Cons.IH [OF this] show ?case
    by (simp add: x JMap_set_fresh [OF fresh])
qed

lemma new_Map_distinct: "distinct (map fst xs) \<Longrightarrow> new_Map xs = xs"
  using new_Map_distinct_aux [of "[]" xs] by (simp add: new_Map_def)

lemma json_image_Position:
  "json_image fmt (Position_obj p) =
     JObj [(''id'', JStr (p_id p)),
           (''marketId'', JStr (p_marketId p)),
           (''marketQuestion'', JStr (p_marketQuestion p)),
           (''tokenId'', JStr (p_tokenId p)),
           (''outcome'', JStr (p_outcome p)),
           (''shares'', JNum (p_shares p)),
           (''avgPrice'', JNum (p_avgPrice p)),
           (''currentPrice'', JNum (p_currentPrice p)),
           (''unrealizedPnL'', JNum (p_unrealizedPnL p)),
           (''openedAt'', JStr (fmt (p_openedAt p)))]"
  by (simp add: Position_obj_def)

lemma restore_entry_Position:
  assumes "revives B (p_openedAt p)"
  shows "restore_entry B (json_image (toISOString B) (JArr [JStr k, Position_obj p]))
           = Inr (JStr k, Position_obj p)"
  using assms
  by (simp add: restore_entry_def json_image_Position element_def revives_def)
     (simp add: Position_obj_def)

lemma Array_map_entries:
  assumes "\<forall>(k, p) \<in> set ps. revives B (p_openedAt p)"
  shows "Array_map (restore_entry B)
           (map (\<lambda>(k, p). json_image (toISOString B) (JArr [JStr k, Position_obj p])) ps)
         = Inr (positions_map ps)"
  using assms
proof (induction ps)
  case Nil
  then show ?case by (simp add: positions_map_def)
next
  case (Cons x ps)
  obtain k p where x: "x = (k, p)" by (cases x)
  have "revives B (p_openedAt p)" using Cons.prems x by simp
  from restore_entry_Position [OF this, of k] Cons show ?case
    by (simp add: x positions_map_def del: json_image.simps)
qed

lemma json_image_entries:
  "json_image fmt (JArr (entries (positions_map ps))) =
     JArr (map (\<lambda>(k, p). json_image fmt (JArr [JStr k, Position_obj p])) ps)"
  by (simp add: entries_def positions_map_def Position_obj_def case_prod_beta)

lemma distinct_positions_map:
  "distinct (map fst ps) \<Longrightarrow> distinct (map fst (positions_map ps))"
  by (simp add: positions_map_def case_prod_beta distinct_map comp_def inj_on_def)

lemma positions_roundtrip:
  assumes "round_trips B (JArr (entries (positions_map ps)))"
    and "\<forall>(k, p) \<in> set ps. revives B (p_openedAt p)"
    and "distinct (map fst ps)"
  shows "PositionTracker_restore B (JStr (PositionTracker_serialize B (positions_map ps))) old
           = Returns (positions_map ps)"
proof -
  have "JSON_parse B (JStr (JSON_stringify B (JArr (entries (positions_map ps))))) =
          Some (JArr (map (\<lambda>(k, p). json_image (toISOString B) (JArr [JStr k, Position_obj p])) ps))"
    using assms(1) by (simp only: round_trips_def json_image_entries)
  then show ?thesis
    using Array_map_entries [OF assms(2)] new_Map_distinct [OF distinct_positions_map [OF assms(3)]]
    by (simp add: PositionTracker_restore_def PositionTracker_serialize_def catch_def)
qed

lemma json_image_Trade:
  "json_image fmt (Trade_obj t) =
     JObj ([(''id'', JStr (t_id t)),
            (''timestamp'', JStr (fmt (t_timestamp t))),
            (''marketId'', JStr (t_marketId t)),
            (''marketQuestion'', JStr (t_marketQuestion t)),
            (''tokenId'', JStr (t_tokenId t)),
            (''outcome'', JStr (t_outcome t)),
            (''side'', JStr (case t_side t of BUY \<Rightarrow> ''BUY'' | SELL \<Rightarrow> ''SELL'')),
            (''shares'', JNum (t_shares t)),
            (''price'', JNum (t_price t)),
            (''totalCost'', JNum (t_totalCost t)),
            (''fees'', JNum (t_fees t))]
           @ (case t_realizedPnL t of None \<Rightarrow> [] | Some pnl \<Rightarrow> [(''realizedPnL'', JNum pnl)]))"
  by (simp add: Trade_obj_def split: option.splits)

lemma restore_trade_Trade:
  assumes "revives B (t_timestamp t)"
  shows "restore_trade B (json_image (toISOString B) (Trade_obj t)) = Inr (Trade_obj t)"
  using assms
  by (simp add: restore_trade_def json_image_Trade revives_def)
     (simp add: Trade_obj_def)

lemma Array_map_trades:
  assumes "\<forall>t \<in> set h. revives B (t_timestamp t)"
  shows "Array_map (restore_trade B) (map (\<lambda>t. json_image (toISOString B) (Trade_obj t)) h)
         = Inr (map Trade_obj h)"
  using assms
proof (induction h)
  case Nil
  then show ?case by simp
next
  case (Cons t h)
  have "revives B (t_timestamp t)" using Cons.prems by simp
  from restore_trade_Trade [OF this] Cons show ?case
    by (simp del: json_image.simps)
qed

lemma Trade_obj_defined: "Trade_obj t \<noteq> JUndefined"
  by (simp add: Trade_obj_def)

lemma json_image_trades:
  "json_image fmt (JArr (map Trade_obj h)) = JArr (map (\<lambda>t. json_image fmt (Trade_obj t)) h)"
  by (simp add: Trade_obj_defined comp_def del: json_image.simps(4))

lemma trades_roundtrip:
  assumes "round_trips B (JArr (map Trade_obj h))"
    and "\<forall>t \<in> set h. revives B (t_timestamp t)"
  shows "TradeExecutor_restore B (JStr (TradeExecutor_serialize B (map Trade_obj h))) old
           = Returns (map Trade_obj h)"
proof -
  have "JSON_parse B (JStr (JSON_stringify B (JArr (map Trade_obj h)))) =
          Some (JArr (map (\<lambda>t. json_image (toISOString B) (Trade_obj t)) h))"
    using assms(1) by (simp only: round_trips_def json_image_trades)
  then show ?thesis
    using Array_map_trades [OF assms(2)]
    by (simp add: TradeExecutor_restore_def TradeExecutor_serialize_def catch_def)
qed

lemma sample_round_trips:
  "round_trips sample_builtins (VirtualBalance_obj sample_balance)"
  "round_trips sample_builtins (JArr (entries (positions_map sample_positions)))"
  "round_trips sample_builtins (JArr (map Trade_obj [sample_trade]))"
  by (simp_all add: round_trips_def sample_builtins_def sample_parse_def sample_stringify_def
        balance_text_def positions_text_def trades_text_def
        VirtualBalance_obj_def Position_obj_def Trade_obj_def entries_def positions_map_def
        sample_positions_def)

lemma PortfolioManager_restore_unparsed:
  "JSON_parse B data = None \<Longrightarrow> PortfolioManager_restore B data st = Returns st"
  by (simp add: PortfolioManager_restore_def catch_def)

lemma PortfolioManager_restore_no_fields:
  "JSON_parse B data = Some parsed \<Longrightarrow> get_prop parsed ''balance'' = None \<Longrightarrow>
   PortfolioManager_restore B data st = Returns st"
  by (simp add: PortfolioManager_restore_def catch_def)

lemma restore_Returns:
  "BalanceManager_restore B d b0 = Returns (settled (BalanceManager_restore B d b0))"
  "PositionTracker_restore B d p0 = Returns (settled (PositionTracker_restore B d p0))"
  "TradeExecutor_restore B d h0 = Returns (settled (TradeExecutor_restore B d h0))"
  by (auto simp: BalanceManager_restore_def PositionTracker_restore_def TradeExecutor_restore_def
        catch_def settled_def split: option.splits sum.splits jsval.splits)

lemma PortfolioManager_restore_fields:
  assumes "JSON_parse B data = Some parsed"
    and "get_prop parsed ''balance'' = Some b"
    and "get_prop parsed ''positions'' = Some p"
    and "get_prop parsed ''trades'' = Some t"
  shows "PortfolioManager_restore B data st =
           Returns \<lparr>m_balance = (if truthy b
                                 then settled (BalanceManager_restore B b (m_balance st))
                                 else m_balance st),
                    m_positions = (if truthy p
                                   then settled (PositionTracker_restore B p (m_positions st))
                                   else m_positions st),
                    m_history = (if truthy t
                                 then settled (TradeExecutor_restore B t (m_history st))
                                 else m_history st)\<rparr>"
proof -
  obtain bb where bb: "BalanceManager_restore B b (m_balance st) = Returns bb"
    using restore_Returns(1) by blast
  obtain pp where pp: "PositionTracker_restore B p (m_positions st) = Returns pp"
    using restore_Returns(2) by blast
  obtain tt where tt: "TradeExecutor_restore B t (m_history st) = Returns tt"
    using restore_Returns(3) by blast
  show ?thesis
    using assms bb pp tt
    by (cases st; cases "truthy b"; cases "truthy p"; cases "truthy t")
       (simp_all add: PortfolioManager_restore_def catch_def Let_def settled_def)
qed

lemma component_kept:
  "JSON_parse B d = None \<Longrightarrow> settled (BalanceManager_restore B d b0) = b0"
  "JSON_parse B d = None \<Longrightarrow> settled (PositionTracker_restore B d p0) = p0"
  "JSON_parse B d = None \<Longrightarrow> settled (TradeExecutor_restore B d h0) = h0"
  by (simp_all add: BalanceManager_restore_def PositionTracker_restore_def
        TradeExecutor_restore_def catch_def settled_def)

lemma sample_clobber:
  \<open>PortfolioManager_restore sample_builtins (JStr ''{"balance":"{}"}'')
      (ledger_memory scenario_ledger)
    = Returns ((ledger_memory scenario_ledger)
                 \<lparr>m_balance := JObj [(''lastUpdated'', JDate Invalid_Date)]\<rparr>)\<close>
  by (simp add: PortfolioManager_restore_def BalanceManager_restore_def catch_def Let_def
        sample_builtins_def sample_parse_def sample_new_Date_def balance_text_def
        positions_text_def trades_text_def ledger_memory_def)

text \<open>
  C7 (serialization round trip). Given that \<^verbatim>\<open>JSON.parse\<close> reads back what
  \<^verbatim>\<open>JSON.stringify\<close> wrote for the component's value and that \<^verbatim>\<open>new Date\<close> reads back
  the ISO text of its time stamps, as the language guarantees, \<open>restore\<close> applied to the
  result of \<open>serialize\<close> leaves exactly the value that was serialized, whatever the
  component held before: for the balance record with its \<open>lastUpdated\<close>, for the whole
  position map with every \<open>openedAt\<close> (the keys of a map being distinct, as the
  executor keeps them), and for the
  whole trade history with every \<open>timestamp\<close>, each on its own.
\<close>

theorem serialization_round_trip:
  "(round_trips B (VirtualBalance_obj b) \<and> revives B (lastUpdated b) \<longrightarrow>
      BalanceManager_restore B (JStr (BalanceManager_serialize B (VirtualBalance_obj b))) b0
        = Returns (VirtualBalance_obj b))
   \<and>
   (round_trips B (JArr (entries (positions_map ps)))
      \<and> (\<forall>(k, p) \<in> set ps. revives B (p_openedAt p)) \<and> distinct (map fst ps) \<longrightarrow>
      PositionTracker_restore B (JStr (PositionTracker_serialize B (positions_map ps))) p0
        = Returns (positions_map ps))
   \<and>
   (round_trips B (JArr (map Trade_obj h)) \<and> (\<forall>t \<in> set h. revives B (t_timestamp t)) \<longrightarrow>
      TradeExecutor_restore B (JStr (TradeExecutor_serialize B (map Trade_obj h))) h0
        = Returns (map Trade_obj h))"
  using balance_roundtrip [of B b b0] positions_roundtrip [of B ps p0]
    trades_roundtrip [of B h h0]
  by blast

theorem serialization_round_trip_witness:
  "round_trips sample_builtins (VirtualBalance_obj sample_balance)
   \<and> revives sample_builtins (lastUpdated sample_balance)
   \<and> BalanceManager_restore sample_builtins
        (JStr (BalanceManager_serialize sample_builtins (VirtualBalance_obj sample_balance)))
        JNull
      = Returns (VirtualBalance_obj sample_balance)
   \<and> round_trips sample_builtins (JArr (entries (positions_map sample_positions)))
   \<and> list_all (\<lambda>(k, p). revives sample_builtins (p_openedAt p)) sample_positions
   \<and> distinct (map fst sample_positions)
   \<and> PositionTracker_restore sample_builtins
        (JStr (PositionTracker_serialize sample_builtins (positions_map sample_positions))) []
      = Returns (positions_map sample_positions)
   \<and> round_trips sample_builtins (JArr (map Trade_obj [sample_trade]))
   \<and> list_all (\<lambda>t. revives sample_builtins (t_timestamp t)) [sample_trade]
   \<and> TradeExecutor_restore sample_builtins
        (JStr (TradeExecutor_serialize sample_builtins (map Trade_obj [sample_trade]))) []
      = Returns (map Trade_obj [sample_trade])"
proof -
  have r1: "revives sample_builtins (lastUpdated sample_balance)"
    by (simp add: revives_def sample_builtins_def sample_new_Date_def sample_toISOString_def
          sample_balance_def)
  have r2: "\<forall>(k, p) \<in> set sample_positions. revives sample_builtins (p_openedAt p)"
    by (simp add: revives_def sample_builtins_def sample_new_Date_def sample_toISOString_def
          sample_positions_def sample_position_def)
  have r3: "\<forall>t \<in> set [sample_trade]. revives sample_builtins (t_timestamp t)"
    by (simp add: revives_def sample_builtins_def sample_new_Date_def sample_toISOString_def
          sample_trade_def)
  have d: "distinct (map fst sample_positions)"
    by (simp add: sample_positions_def)
  show ?thesis
    using serialization_round_trip
            [where B = sample_builtins and b = sample_balance and ps = sample_positions
               and h = "[sample_trade]" and ?b0.0 = JNull and ?p0.0 = "[]" and ?h0.0 = "[]"]
          sample_round_trips r1 r2 r3 d
    by (simp add: list_all_iff)
qed

subsection \<open>What restore keeps and what it stores\<close>

lemma Array_map_throws:
  "x \<in> set xs \<Longrightarrow> f x = Inl e \<Longrightarrow> \<exists>e'. Array_map f xs = Inl e'"
  by (induction xs) (auto split: sum.splits)

lemma Array_map_all2:
  "list_all2 (\<lambda>x y. f x = Inr y) xs ys \<Longrightarrow> Array_map f xs = Inr ys"
  by (induction xs ys rule: list_all2_induct) simp_all

lemma balance_kept_null:
  "JSON_parse B v = Some parsed \<Longrightarrow> parsed = JNull \<or> parsed = JUndefined \<Longrightarrow>
   BalanceManager_restore B v b0 = Returns b0"
  by (auto simp: BalanceManager_restore_def catch_def)

lemma balance_kept_date:
  "JSON_parse B v = Some parsed \<Longrightarrow> get_prop parsed ''lastUpdated'' = Some stamp \<Longrightarrow>
   new_Date B stamp = None \<Longrightarrow> BalanceManager_restore B v b0 = Returns b0"
  by (simp add: BalanceManager_restore_def catch_def)

lemma balance_stored:
  "JSON_parse B v = Some parsed \<Longrightarrow> get_prop parsed ''lastUpdated'' = Some stamp \<Longrightarrow>
   new_Date B stamp = Some d \<Longrightarrow>
   BalanceManager_restore B v b0
     = Returns (JObj (obj_set (spread parsed) ''lastUpdated'' (JDate d)))"
  by (simp add: BalanceManager_restore_def catch_def)

lemma lists_kept_not_array:
  assumes "JSON_parse B v = Some parsed" and "\<forall>xs. parsed \<noteq> JArr xs"
  shows "PositionTracker_restore B v p0 = Returns p0"
    and "TradeExecutor_restore B v h0 = Returns h0"
  using assms
  by (cases parsed; simp add: PositionTracker_restore_def TradeExecutor_restore_def catch_def)+

lemma positions_kept_entry:
  assumes "JSON_parse B v = Some (JArr xs)" and "e \<in> set xs"
    and "restore_entry B e = Inl err"
  shows "PositionTracker_restore B v p0 = Returns p0"
proof -
  obtain e' where "Array_map (restore_entry B) xs = Inl e'"
    using Array_map_throws [of e xs "restore_entry B" err] assms(2,3) by blast
  then show ?thesis
    using assms(1) by (simp add: PositionTracker_restore_def catch_def)
qed

lemma trades_kept_entry:
  assumes "JSON_parse B v = Some (JArr xs)" and "e \<in> set xs"
    and "restore_trade B e = Inl err"
  shows "TradeExecutor_restore B v h0 = Returns h0"
proof -
  obtain e' where "Array_map (restore_trade B) xs = Inl e'"
    using Array_map_throws [of e xs "restore_trade B" err] assms(2,3) by blast
  then show ?thesis
    using assms(1) by (simp add: TradeExecutor_restore_def catch_def)
qed

lemma restore_entry_unreadable:
  assumes "destructure_pair e = None
         \<or> (\<exists>key pos. destructure_pair e = Some (key, pos) \<and> (pos = JNull \<or> pos = JUndefined))"
  shows "restore_entry B e = Inl TypeError"
  using assms by (auto simp: restore_entry_def)

lemma restore_entry_stored:
  assumes "destructure_pair e = Some (key, pos)"
    and "get_prop pos ''openedAt'' = Some stamp" and "new_Date B stamp = Some d"
  shows "restore_entry B e = Inr (key, JObj (obj_set (spread pos) ''openedAt'' (JDate d)))"
  using assms by (simp add: restore_entry_def)

lemma restore_entry_date:
  assumes "destructure_pair e = Some (key, pos)"
    and "get_prop pos ''openedAt'' = Some stamp" and "new_Date B stamp = None"
  shows "restore_entry B e = Inl TypeError"
  using assms by (simp add: restore_entry_def)

lemma restore_trade_null:
  "e = JNull \<or> e = JUndefined \<Longrightarrow> restore_trade B e = Inl TypeError"
  by (auto simp: restore_trade_def)

lemma restore_trade_stored:
  assumes "get_prop e ''timestamp'' = Some stamp" and "new_Date B stamp = Some d"
  shows "restore_trade B e = Inr (JObj (obj_set (spread e) ''timestamp'' (JDate d)))"
  using assms by (simp add: restore_trade_def)

lemma restore_trade_date:
  assumes "get_prop e ''timestamp'' = Some stamp" and "new_Date B stamp = None"
  shows "restore_trade B e = Inl TypeError"
  using assms by (simp add: restore_trade_def)

lemma positions_stored:
  assumes "JSON_parse B v = Some (JArr xs)"
    and "list_all2 (\<lambda>e pair. \<exists>key pos stamp d. destructure_pair e = Some (key, pos)
            \<and> get_prop pos ''openedAt'' = Some stamp \<and> new_Date B stamp = Some d
            \<and> pair = (key, JObj (obj_set (spread pos) ''openedAt'' (JDate d)))) xs pairs"
  shows "PositionTracker_restore B v p0 = Returns (new_Map pairs)"
proof -
  have "list_all2 (\<lambda>e pair. restore_entry B e = Inr pair) xs pairs"
    using assms(2) by (rule list_all2_mono) (auto simp: restore_entry_stored)
  then have "Array_map (restore_entry B) xs = Inr pairs" by (rule Array_map_all2)
  then show ?thesis
    using assms(1) by (simp add: PositionTracker_restore_def catch_def)
qed

lemma trades_stored:
  assumes "JSON_parse B v = Some (JArr xs)"
    and "list_all2 (\<lambda>e t. \<exists>stamp d. get_prop e ''timestamp'' = Some stamp
            \<and> new_Date B stamp = Some d
            \<and> t = JObj (obj_set (spread e) ''timestamp'' (JDate d))) xs ts"
  shows "TradeExecutor_restore B v h0 = Returns ts"
proof -
  have "list_all2 (\<lambda>e t. restore_trade B e = Inr t) xs ts"
    using assms(2) by (rule list_all2_mono) (auto simp: restore_trade_stored)
  then have "Array_map (restore_trade B) xs = Inr ts" by (rule Array_map_all2)
  then show ?thesis
    using assms(1) by (simp add: TradeExecutor_restore_def catch_def)
qed

lemma bundle_fields:
  assumes p: "JSON_parse B data = Some parsed"
  shows "m_balance (settled (PortfolioManager_restore B data st)) =
               (case get_prop parsed ''balance'' of
                  None \<Rightarrow> m_balance st
                | Some v \<Rightarrow> if truthy v then settled (BalanceManager_restore B v (m_balance st))
                            else m_balance st)
           \<and> m_positions (settled (PortfolioManager_restore B data st)) =
               (case get_prop parsed ''positions'' of
                  None \<Rightarrow> m_positions st
                | Some v \<Rightarrow> if truthy v then settled (PositionTracker_restore B v (m_positions st))
                            else m_positions st)
           \<and> m_history (settled (PortfolioManager_restore B data st)) =
               (case get_prop parsed ''trades'' of
                  None \<Rightarrow> m_history st
                | Some v \<Rightarrow> if truthy v then settled (TradeExecutor_restore B v (m_history st))
                            else m_history st)"
proof (cases "get_prop parsed ''balance''")
  case None
  then have "get_prop parsed ''positions'' = None" "get_prop parsed ''trades'' = None"
    by (cases parsed; simp)+
  with None PortfolioManager_restore_no_fields [OF p None, of st] show ?thesis
    by (simp add: settled_def)
next
  case (Some b)
  then obtain q t where "get_prop parsed ''positions'' = Some q"
    and "get_prop parsed ''trades'' = Some t"
    by (cases parsed) auto
  with Some PortfolioManager_restore_fields [OF p Some, of q t st] show ?thesis
    by (simp add: settled_def)
qed

lemma bundle_kept:
  assumes "JSON_parse B data = Some parsed"
  shows "unusable B parsed ''balance'' \<Longrightarrow>
           m_balance (settled (PortfolioManager_restore B data st)) = m_balance st"
    and "unusable B parsed ''positions'' \<Longrightarrow>
           m_positions (settled (PortfolioManager_restore B data st)) = m_positions st"
    and "unusable B parsed ''trades'' \<Longrightarrow>
           m_history (settled (PortfolioManager_restore B data st)) = m_history st"
  using bundle_fields [OF assms, of st] component_kept(1) [of B _ "m_balance st"]
    component_kept(2) [of B _ "m_positions st"] component_kept(3) [of B _ "m_history st"]
  by (auto simp: unusable_def split: option.splits)

lemma bundle_own_field:
  assumes "JSON_parse B data = Some parsed"
  shows "get_prop parsed ''balance'' = Some v \<and> truthy v \<Longrightarrow>
           m_balance (settled (PortfolioManager_restore B data st))
             = settled (BalanceManager_restore B v (m_balance st))"
    and "get_prop parsed ''positions'' = Some v \<and> truthy v \<Longrightarrow>
           m_positions (settled (PortfolioManager_restore B data st))
             = settled (PositionTracker_restore B v (m_positions st))"
    and "get_prop parsed ''trades'' = Some v \<and> truthy v \<Longrightarrow>
           m_history (settled (PortfolioManager_restore B data st))
             = settled (TradeExecutor_restore B v (m_history st))"
  using bundle_fields [OF assms, of st] by simp_all

text \<open>
  C8 (restore does not throw and keeps a component it cannot read), as the code has it.
  For every input, \<open>restore\<close> of each component and of the PortfolioManager returns.
  For a bundle that parses, a component keeps its value when its sub-field is missing
  or falsy, and otherwise its new value is what its own \<open>restore\<close> makes of its own
  sub-field: no component depends on another one's sub-field. The \<open>restore\<close> of a
  component keeps the value of the component in every case in which the body of its
  \<^verbatim>\<open>try\<close> throws:
  \<^item> when \<^verbatim>\<open>JSON.parse\<close> rejects the input (and so does the whole portfolio when the
    bundle is rejected);
  \<^item> for the balance, when the input parses to \<^verbatim>\<open>null\<close>;
  \<^item> for the positions and the trades, when the input parses to a value that is not
    an array;
  \<^item> for the trades, when an entry of the array is \<^verbatim>\<open>null\<close>;
  \<^item> for the positions, when an entry of the array cannot be destructured (it is
    neither an array nor a string) or its second element is \<^verbatim>\<open>null\<close> or missing;
  \<^item> when the \<^verbatim>\<open>Date\<close> constructor throws on the date field it is given (on the values
    that \<^verbatim>\<open>JSON.parse\<close> returns, the constructor of the language does not).

  The value \<^verbatim>\<open>undefined\<close>, which \<^verbatim>\<open>JSON.parse\<close> does not return, is treated like \<^verbatim>\<open>null\<close>.
  In every other case the parsed value is stored, whatever its fields: the balance
  becomes the spread of the parsed value with \<open>lastUpdated\<close> replaced by the date
  made of it, the positions become the map of the entries' first elements to the
  spread of their second elements with \<open>openedAt\<close> replaced, and the history becomes
  the spread of each entry with \<open>timestamp\<close> replaced.
\<close>

theorem restore_never_throws:
  "(\<exists>b. BalanceManager_restore B data b0 = Returns b)
   \<and> (\<exists>p. PositionTracker_restore B data p0 = Returns p)
   \<and> (\<exists>h. TradeExecutor_restore B data h0 = Returns h)
   \<and> (\<exists>st'. PortfolioManager_restore B data st = Returns st')
   \<and> (JSON_parse B data = None \<longrightarrow>
         BalanceManager_restore B data b0 = Returns b0
       \<and> PositionTracker_restore B data p0 = Returns p0
       \<and> TradeExecutor_restore B data h0 = Returns h0
       \<and> PortfolioManager_restore B data st = Returns st)
   \<and> (\<forall>parsed. JSON_parse B data = Some parsed \<longrightarrow>
         (unusable B parsed ''balance'' \<longrightarrow>
            m_balance (settled (PortfolioManager_restore B data st)) = m_balance st)
       \<and> (unusable B parsed ''positions'' \<longrightarrow>
            m_positions (settled (PortfolioManager_restore B data st)) = m_positions st)
       \<and> (unusable B parsed ''trades'' \<longrightarrow>
            m_history (settled (PortfolioManager_restore B data st)) = m_history st)
       \<and> (\<forall>v. get_prop parsed ''balance'' = Some v \<and> truthy v \<longrightarrow>
            m_balance (settled (PortfolioManager_restore B data st))
              = settled (BalanceManager_restore B v (m_balance st)))
       \<and> (\<forall>v. get_prop parsed ''positions'' = Some v \<and> truthy v \<longrightarrow>
            m_positions (settled (PortfolioManager_restore B data st))
              = settled (PositionTracker_restore B v (m_positions st)))
       \<and> (\<forall>v. get_prop parsed ''trades'' = Some v \<and> truthy v \<longrightarrow>
            m_history (settled (PortfolioManager_restore B data st))
              = settled (TradeExecutor_restore B v (m_history st))))
   \<and> (\<forall>parsed. JSON_parse B data = Some parsed \<and> (parsed = JNull \<or> parsed = JUndefined) \<longrightarrow>
         BalanceManager_restore B data b0 = Returns b0)
   \<and> (\<forall>parsed. JSON_parse B data = Some parsed \<and> (\<forall>xs. parsed \<noteq> JArr xs) \<longrightarrow>
         PositionTracker_restore B data p0 = Returns p0
       \<and> TradeExecutor_restore B data h0 = Returns h0)
   \<and> (\<forall>xs e. JSON_parse B data = Some (JArr xs) \<and> e \<in> set xs
         \<and> (e = JNull \<or> e = JUndefined) \<longrightarrow>
         TradeExecutor_restore B data h0 = Returns h0)
   \<and> (\<forall>xs e. JSON_parse B data = Some (JArr xs) \<and> e \<in> set xs
         \<and> (destructure_pair e = None
            \<or> (\<exists>key pos. destructure_pair e = Some (key, pos)
                  \<and> (pos = JNull \<or> pos = JUndefined))) \<longrightarrow>
         PositionTracker_restore B data p0 = Returns p0)
   \<and> (\<forall>parsed stamp. JSON_parse B data = Some parsed
         \<and> get_prop parsed ''lastUpdated'' = Some stamp \<and> new_Date B stamp = None \<longrightarrow>
         BalanceManager_restore B data b0 = Returns b0)
   \<and> (\<forall>xs e key pos stamp. JSON_parse B data = Some (JArr xs) \<and> e \<in> set xs
         \<and> destructure_pair e = Some (key, pos)
         \<and> get_prop pos ''openedAt'' = Some stamp \<and> new_Date B stamp = None \<longrightarrow>
         PositionTracker_restore B data p0 = Returns p0)
   \<and> (\<forall>xs e stamp. JSON_parse B data = Some (JArr xs) \<and> e \<in> set xs
         \<and> get_prop e ''timestamp'' = Some stamp \<and> new_Date B stamp = None \<longrightarrow>
         TradeExecutor_restore B data h0 = Returns h0)
   \<and> (\<forall>parsed stamp d. JSON_parse B data = Some parsed
         \<and> get_prop parsed ''lastUpdated'' = Some stamp \<and> new_Date B stamp = Some d \<longrightarrow>
         BalanceManager_restore B data b0
           = Returns (JObj (obj_set (spread parsed) ''lastUpdated'' (JDate d))))
   \<and> (\<forall>xs pairs. JSON_parse B data = Some (JArr xs)
         \<and> list_all2 (\<lambda>e pair. \<exists>key pos stamp d. destructure_pair e = Some (key, pos)
               \<and> get_prop pos ''openedAt'' = Some stamp \<and> new_Date B stamp = Some d
               \<and> pair = (key, JObj (obj_set (spread pos) ''openedAt'' (JDate d))))
             xs pairs \<longrightarrow>
         PositionTracker_restore B data p0 = Returns (new_Map pairs))
   \<and> (\<forall>xs ts. JSON_parse B data = Some (JArr xs)
         \<and> list_all2 (\<lambda>e t. \<exists>stamp d. get_prop e ''timestamp'' = Some stamp
               \<and> new_Date B stamp = Some d
               \<and> t = JObj (obj_set (spread e) ''timestamp'' (JDate d))) xs ts \<longrightarrow>
         TradeExecutor_restore B data h0 = Returns ts)"
  apply (intro conjI)
  subgoal using restore_Returns(1) by blast
  subgoal using restore_Returns(2) by blast
  subgoal using restore_Returns(3) by blast
  subgoal unfolding PortfolioManager_restore_def by (rule catch_returns)
  subgoal
    by (simp add: BalanceManager_restore_def PositionTracker_restore_def
          TradeExecutor_restore_def PortfolioManager_restore_unparsed catch_def)
  subgoal
    using bundle_kept [of B data _ st] bundle_own_field [of B data _ _ st] by blast
  subgoal using balance_kept_null [of B data] by blast
  subgoal using lists_kept_not_array [of B data] by blast
  subgoal using trades_kept_entry [of B data] restore_trade_null by blast
  subgoal using positions_kept_entry [of B data] restore_entry_unreadable by blast
  subgoal using balance_kept_date [of B data] by blast
  subgoal using positions_kept_entry [of B data] restore_entry_date by blast
  subgoal using trades_kept_entry [of B data] restore_trade_date by blast
  subgoal using balance_stored [of B data] by blast
  subgoal using positions_stored [of B data] by blast
  subgoal using trades_stored [of B data] by blast
  done

theorem restore_never_throws_witness:
  \<open>JSON_parse sample_builtins (JStr ''not json'') = None
   \<and> PortfolioManager_restore sample_builtins (JStr ''not json'') (ledger_memory scenario_ledger)
       = Returns (ledger_memory scenario_ledger)
   \<and> JSON_parse sample_builtins (JStr ''{"balance":"{"}'')
       = Some (JObj [(''balance'', JStr ''{'')])
   \<and> unusable sample_builtins (JObj [(''balance'', JStr ''{'')]) ''balance''
   \<and> unusable sample_builtins (JObj [(''balance'', JStr ''{'')]) ''positions''
   \<and> unusable sample_builtins (JObj [(''balance'', JStr ''{'')]) ''trades''
   \<and> settled (PortfolioManager_restore sample_builtins (JStr ''{"balance":"{"}'')
                (ledger_memory scenario_ledger))
       = ledger_memory scenario_ledger
   \<and> JSON_parse sample_builtins (JStr ''{"balance":"{}","positions":"[]","trades":"[]"}'')
       = Some (JObj [(''balance'', JStr ''{}''), (''positions'', JStr ''[]''),
                     (''trades'', JStr ''[]'')])
   \<and> settled (PortfolioManager_restore sample_builtins
                (JStr ''{"balance":"{}","positions":"[]","trades":"[]"}'')
                (ledger_memory scenario_ledger))
       = \<lparr>m_balance = JObj [(''lastUpdated'', JDate Invalid_Date)],
          m_positions = [], m_history = []\<rparr>
   \<and> JSON_parse sample_builtins (JStr ''null'') = Some JNull
   \<and> BalanceManager_restore sample_builtins (JStr ''null'') (VirtualBalance_obj sample_balance)
       = Returns (VirtualBalance_obj sample_balance)
   \<and> PositionTracker_restore sample_builtins (JStr ''null'') (positions_map sample_positions)
       = Returns (positions_map sample_positions)
   \<and> TradeExecutor_restore sample_builtins (JStr ''null'') [Trade_obj sample_trade]
       = Returns [Trade_obj sample_trade]
   \<and> JSON_parse sample_builtins (JStr ''[null]'') = Some (JArr [JNull])
   \<and> destructure_pair JNull = None
   \<and> PositionTracker_restore sample_builtins (JStr ''[null]'') (positions_map sample_positions)
       = Returns (positions_map sample_positions)
   \<and> TradeExecutor_restore sample_builtins (JStr ''[null]'') [Trade_obj sample_trade]
       = Returns [Trade_obj sample_trade]
   \<and> JSON_parse sample_builtins (JStr ''[[1,{}]]'') = Some (JArr [JArr [JNum 1, JObj []]])
   \<and> JSON_parse sample_builtins (JStr ''[{}]'') = Some (JArr [JObj []])
   \<and> new_Date throwing_Date JUndefined = None
   \<and> BalanceManager_restore throwing_Date (JStr ''{}'') (VirtualBalance_obj sample_balance)
       = Returns (VirtualBalance_obj sample_balance)
   \<and> PositionTracker_restore throwing_Date (JStr ''[[1,{}]]'') (positions_map sample_positions)
       = Returns (positions_map sample_positions)
   \<and> TradeExecutor_restore throwing_Date (JStr ''[{}]'') [Trade_obj sample_trade]
       = Returns [Trade_obj sample_trade]
   \<and> new_Date sample_builtins JUndefined = Some Invalid_Date
   \<and> BalanceManager_restore sample_builtins (JStr ''{}'') (VirtualBalance_obj sample_balance)
       = Returns (JObj [(''lastUpdated'', JDate Invalid_Date)])
   \<and> PositionTracker_restore sample_builtins (JStr ''[[1,{}]]'') (positions_map sample_positions)
       = Returns [(JNum 1, JObj [(''openedAt'', JDate Invalid_Date)])]
   \<and> TradeExecutor_restore sample_builtins (JStr ''[{}]'') [Trade_obj sample_trade]
       = Returns [JObj [(''timestamp'', JDate Invalid_Date)]]\<close>
proof -
  note tables = sample_builtins_def throwing_Date_def sample_parse_def sample_new_Date_def
    balance_text_def positions_text_def trades_text_def
  let ?full = \<open>JStr ''{"balance":"{}","positions":"[]","trades":"[]"}''\<close>
  let ?fields = "JObj [(''balance'', JStr ''{}''), (''positions'', JStr ''[]''),
                       (''trades'', JStr ''[]'')]"
  let ?b = "VirtualBalance_obj sample_balance"
  let ?p = "positions_map sample_positions"
  let ?h = "[Trade_obj sample_trade]"
  let ?pair = "JStr ''[[1,{}]]''"
  let ?one = "JStr ''[{}]''"
  have f: "JSON_parse sample_builtins ?full = Some ?fields"
    by (simp add: tables)
  have g: "get_prop ?fields ''balance'' = Some (JStr ''{}'') \<and> truthy (JStr ''{}'')"
      "get_prop ?fields ''positions'' = Some (JStr ''[]'') \<and> truthy (JStr ''[]'')"
      "get_prop ?fields ''trades'' = Some (JStr ''[]'') \<and> truthy (JStr ''[]'')"
    by simp_all
  have k3: "m_balance (settled (PortfolioManager_restore sample_builtins ?full
                (ledger_memory scenario_ledger)))
              = settled (BalanceManager_restore sample_builtins (JStr ''{}'')
                  (m_balance (ledger_memory scenario_ledger)))
          \<and> m_positions (settled (PortfolioManager_restore sample_builtins ?full
                (ledger_memory scenario_ledger)))
              = settled (PositionTracker_restore sample_builtins (JStr ''[]'')
                  (m_positions (ledger_memory scenario_ledger)))
          \<and> m_history (settled (PortfolioManager_restore sample_builtins ?full
                (ledger_memory scenario_ledger)))
              = settled (TradeExecutor_restore sample_builtins (JStr ''[]'')
                  (m_history (ledger_memory scenario_ledger)))"
    using restore_never_throws
            [where B = sample_builtins and data = ?full
               and st = "ledger_memory scenario_ledger",
               THEN conjunct2, THEN conjunct2, THEN conjunct2, THEN conjunct2,
               THEN conjunct2, THEN conjunct1]
          f g
    by blast
  have e: "settled (BalanceManager_restore sample_builtins (JStr ''{}'') b0)
             = JObj [(''lastUpdated'', JDate Invalid_Date)]"
      "settled (PositionTracker_restore sample_builtins (JStr ''[]'') p0) = []"
      "settled (TradeExecutor_restore sample_builtins (JStr ''[]'') h0) = []"
    for b0 p0 h0
    by (simp_all add: BalanceManager_restore_def PositionTracker_restore_def
          TradeExecutor_restore_def catch_def settled_def new_Map_def tables)
  have k4: "settled (PortfolioManager_restore sample_builtins ?full
                (ledger_memory scenario_ledger))
       = \<lparr>m_balance = JObj [(''lastUpdated'', JDate Invalid_Date)],
          m_positions = [], m_history = []\<rparr>"
    using k3 by (simp add: e memory.equality)
  have n: "JSON_parse sample_builtins (JStr ''not json'') = None"
    by (simp add: tables)
  have p: \<open>JSON_parse sample_builtins (JStr ''{"balance":"{"}'')
             = Some (JObj [(''balance'', JStr ''{'')])\<close>
    by (simp add: tables)
  have u: "unusable sample_builtins (JObj [(''balance'', JStr ''{'')]) ''balance''"
      "unusable sample_builtins (JObj [(''balance'', JStr ''{'')]) ''positions''"
      "unusable sample_builtins (JObj [(''balance'', JStr ''{'')]) ''trades''"
    by (simp_all add: unusable_def tables)
  have k1: "PortfolioManager_restore sample_builtins (JStr ''not json'')
              (ledger_memory scenario_ledger) = Returns (ledger_memory scenario_ledger)"
    using restore_never_throws
            [where B = sample_builtins and data = "JStr ''not json''"
               and st = "ledger_memory scenario_ledger",
               THEN conjunct2, THEN conjunct2, THEN conjunct2, THEN conjunct2,
               THEN conjunct1]
          n
    by blast
  have k2: \<open>m_balance (settled (PortfolioManager_restore sample_builtins
                (JStr ''{"balance":"{"}'') (ledger_memory scenario_ledger)))
              = m_balance (ledger_memory scenario_ledger)
          \<and> m_positions (settled (PortfolioManager_restore sample_builtins
                (JStr ''{"balance":"{"}'') (ledger_memory scenario_ledger)))
              = m_positions (ledger_memory scenario_ledger)
          \<and> m_history (settled (PortfolioManager_restore sample_builtins
                (JStr ''{"balance":"{"}'') (ledger_memory scenario_ledger)))
              = m_history (ledger_memory scenario_ledger)\<close>
    using restore_never_throws
            [where B = sample_builtins and data = \<open>JStr ''{"balance":"{"}''\<close>
               and st = "ledger_memory scenario_ledger",
               THEN conjunct2, THEN conjunct2, THEN conjunct2, THEN conjunct2,
               THEN conjunct2, THEN conjunct1]
          p u
    by blast
  have k2': \<open>settled (PortfolioManager_restore sample_builtins (JStr ''{"balance":"{"}'')
                (ledger_memory scenario_ledger))
       = ledger_memory scenario_ledger\<close>
    using k2 by (simp add: memory.equality)
  have pn: "JSON_parse sample_builtins (JStr ''null'') = Some JNull"
    and pa: "JSON_parse sample_builtins (JStr ''[null]'') = Some (JArr [JNull])"
    and pe: "JSON_parse sample_builtins ?pair = Some (JArr [JArr [JNum 1, JObj []]])"
    and po: "JSON_parse sample_builtins ?one = Some (JArr [JObj []])"
    and pb: "JSON_parse sample_builtins (JStr ''{}'') = Some (JObj [])"
    by (simp_all add: tables)
  have tn: "new_Date throwing_Date JUndefined = None"
    and te: "JSON_parse throwing_Date ?pair = Some (JArr [JArr [JNum 1, JObj []]])"
    and to: "JSON_parse throwing_Date ?one = Some (JArr [JObj []])"
    and tb: "JSON_parse throwing_Date (JStr ''{}'') = Some (JObj [])"
    by (simp_all add: tables)
  have dn: "new_Date sample_builtins JUndefined = Some Invalid_Date"
    by (simp add: tables)
  have shapes: "destructure_pair JNull = None"
      "\<forall>xs. JNull \<noteq> JArr xs"
      "JNull \<in> set [JNull]"
      "JArr [JNum 1, JObj []] \<in> set [JArr [JNum 1, JObj []]]"
      "JObj [] \<in> set [JObj []]"
      "destructure_pair (JArr [JNum 1, JObj []]) = Some (JNum 1, JObj [])"
      "get_prop (JObj []) ''lastUpdated'' = Some JUndefined"
      "get_prop (JObj []) ''openedAt'' = Some JUndefined"
      "get_prop (JObj []) ''timestamp'' = Some JUndefined"
    by (simp_all add: element_def)
  have k5: "BalanceManager_restore sample_builtins (JStr ''null'') ?b = Returns ?b"
    using restore_never_throws
            [where B = sample_builtins and data = "JStr ''null''" and ?b0.0 = ?b,
               THEN conjunct2, THEN conjunct2, THEN conjunct2, THEN conjunct2,
               THEN conjunct2, THEN conjunct2, THEN conjunct1]
          pn
    by blast
  have k5': "PositionTracker_restore sample_builtins (JStr ''null'') ?p = Returns ?p
           \<and> TradeExecutor_restore sample_builtins (JStr ''null'') ?h = Returns ?h"
    using restore_never_throws
            [where B = sample_builtins and data = "JStr ''null''"
               and ?p0.0 = ?p and ?h0.0 = ?h,
               THEN conjunct2, THEN conjunct2, THEN conjunct2, THEN conjunct2,
               THEN conjunct2, THEN conjunct2, THEN conjunct2, THEN conjunct1]
          pn shapes(2)
    by blast
  have k6: "PositionTracker_restore sample_builtins (JStr ''[null]'') ?p = Returns ?p"
    using restore_never_throws
            [where B = sample_builtins and data = "JStr ''[null]''" and ?p0.0 = ?p,
               THEN conjunct2, THEN conjunct2, THEN conjunct2, THEN conjunct2,
               THEN conjunct2, THEN conjunct2, THEN conjunct2, THEN conjunct2,
               THEN conjunct2, THEN conjunct1]
          pa shapes(1,3)
    by blast
  have k6': "TradeExecutor_restore sample_builtins (JStr ''[null]'') ?h = Returns ?h"
    using restore_never_throws
            [where B = sample_builtins and data = "JStr ''[null]''" and ?h0.0 = ?h,
               THEN conjunct2, THEN conjunct2, THEN conjunct2, THEN conjunct2,
               THEN conjunct2, THEN conjunct2, THEN conjunct2, THEN conjunct2,
               THEN conjunct1]
          pa shapes(3)
    by blast
  have k7: "BalanceManager_restore throwing_Date (JStr ''{}'') ?b = Returns ?b"
    using restore_never_throws
            [where B = throwing_Date and data = "JStr ''{}''" and ?b0.0 = ?b,
               THEN conjunct2, THEN conjunct2, THEN conjunct2, THEN conjunct2,
               THEN conjunct2, THEN conjunct2, THEN conjunct2, THEN conjunct2,
               THEN conjunct2, THEN conjunct2, THEN conjunct1]
          tb tn shapes(7)
    by blast
  have k8: "PositionTracker_restore throwing_Date ?pair ?p = Returns ?p"
    using restore_never_throws
            [where B = throwing_Date and data = ?pair and ?p0.0 = ?p,
               THEN conjunct2, THEN conjunct2, THEN conjunct2, THEN conjunct2,
               THEN conjunct2, THEN conjunct2, THEN conjunct2, THEN conjunct2,
               THEN conjunct2, THEN conjunct2, THEN conjunct2, THEN conjunct1]
          te tn shapes(4,6,8)
    by blast
  have k9: "TradeExecutor_restore throwing_Date ?one ?h = Returns ?h"
    using restore_never_throws
            [where B = throwing_Date and data = ?one and ?h0.0 = ?h,
               THEN conjunct2, THEN conjunct2, THEN conjunct2, THEN conjunct2,
               THEN conjunct2, THEN conjunct2, THEN conjunct2, THEN conjunct2,
               THEN conjunct2, THEN conjunct2, THEN conjunct2, THEN conjunct2,
               THEN conjunct1]
          to tn shapes(5,9)
    by blast
  have k10: "BalanceManager_restore sample_builtins (JStr ''{}'') ?b
               = Returns (JObj (obj_set (spread (JObj [])) ''lastUpdated'' (JDate Invalid_Date)))"
    using restore_never_throws
            [where B = sample_builtins and data = "JStr ''{}''" and ?b0.0 = ?b,
               THEN conjunct2, THEN conjunct2, THEN conjunct2, THEN conjunct2,
               THEN conjunct2, THEN conjunct2, THEN conjunct2, THEN conjunct2,
               THEN conjunct2, THEN conjunct2, THEN conjunct2, THEN conjunct2,
               THEN conjunct2, THEN conjunct1]
          pb dn shapes(7)
    by blast
  have l1: "list_all2 (\<lambda>e pair. \<exists>key pos stamp d. destructure_pair e = Some (key, pos)
               \<and> get_prop pos ''openedAt'' = Some stamp
               \<and> new_Date sample_builtins stamp = Some d
               \<and> pair = (key, JObj (obj_set (spread pos) ''openedAt'' (JDate d))))
             [JArr [JNum 1, JObj []]]
             [(JNum 1, JObj [(''openedAt'', JDate Invalid_Date)])]"
    using dn by (simp add: element_def)
  have l2: "list_all2 (\<lambda>e t. \<exists>stamp d. get_prop e ''timestamp'' = Some stamp
               \<and> new_Date sample_builtins stamp = Some d
               \<and> t = JObj (obj_set (spread e) ''timestamp'' (JDate d)))
             [JObj []] [JObj [(''timestamp'', JDate Invalid_Date)]]"
    using dn by simp
  have k11: "PositionTracker_restore sample_builtins ?pair ?p
               = Returns (new_Map [(JNum 1, JObj [(''openedAt'', JDate Invalid_Date)])])"
    by (rule restore_never_throws
            [where B = sample_builtins and data = ?pair and ?p0.0 = ?p,
               THEN conjunct2, THEN conjunct2, THEN conjunct2, THEN conjunct2,
               THEN conjunct2, THEN conjunct2, THEN conjunct2, THEN conjunct2,
               THEN conjunct2, THEN conjunct2, THEN conjunct2, THEN conjunct2,
               THEN conjunct2, THEN conjunct2, THEN conjunct1,
               rule_format, OF conjI, OF pe l1])
  have k12: "TradeExecutor_restore sample_builtins ?one ?h
               = Returns [JObj [(''timestamp'', JDate Invalid_Date)]]"
    by (rule restore_never_throws
            [where B = sample_builtins and data = ?one and ?h0.0 = ?h,
               THEN conjunct2, THEN conjunct2, THEN conjunct2, THEN conjunct2,
               THEN conjunct2, THEN conjunct2, THEN conjunct2, THEN conjunct2,
               THEN conjunct2, THEN conjunct2, THEN conjunct2, THEN conjunct2,
               THEN conjunct2, THEN conjunct2, THEN conjunct2,
               rule_format, OF conjI, OF po l2])
  have m: "new_Map [(JNum 1, JObj [(''openedAt'', JDate Invalid_Date)])]
             = [(JNum 1, JObj [(''openedAt'', JDate Invalid_Date)])]"
    by (simp add: new_Map_def)
  show ?thesis
    using n p u k1 k2' f k4 pn pa pe po tn dn shapes(1) k5 k5' k6 k6' k7 k8 k9 k10 k11 k12
    by (simp add: m)
qed

text \<open>
  A sub-field that is malformed but parses is not kept out. The bundle
  \<^verbatim>\<open>{"balance":"{}"}\<close> parses, its balance sub-field \<^verbatim>\<open>{}\<close> parses to the empty object,
  and \<open>restore\<close> replaces the balance record (cash 99529.17) by an object with a single
  property, \<open>lastUpdated\<close>, holding the invalid date that \<^verbatim>\<open>new Date(undefined)\<close> is.
\<close>

theorem restore_never_throws_counterexample:
  \<open>JSON_parse sample_builtins (JStr ''{"balance":"{}"}'')
       = Some (JObj [(''balance'', JStr ''{}'')])
   \<and> JSON_parse sample_builtins (JStr ''{}'') = Some (JObj [])
   \<and> new_Date sample_builtins JUndefined = Some Invalid_Date
   \<and> m_balance (ledger_memory scenario_ledger) = VirtualBalance_obj (balance scenario_ledger)
   \<and> PortfolioManager_restore sample_builtins (JStr ''{"balance":"{}"}'')
        (ledger_memory scenario_ledger)
       = Returns ((ledger_memory scenario_ledger)
                    \<lparr>m_balance := JObj [(''lastUpdated'', JDate Invalid_Date)]\<rparr>)
   \<and> JObj [(''lastUpdated'', JDate Invalid_Date)] \<noteq> VirtualBalance_obj (balance scenario_ledger)\<close>
  using sample_clobber
  by (simp add: sample_builtins_def sample_parse_def sample_new_Date_def balance_text_def
        positions_text_def trades_text_def ledger_memory_def VirtualBalance_obj_def)

end
